theory Spec2Isabelle
  imports Complex_Main "HOL-Library.Word"
begin

unbundle bit_operations_syntax

section \<open>JavaScript values, errors, configuration and environment\<close>

text \<open>
  The services are TypeScript. Numbers are modelled as \<^typ>\<open>real\<close> (exact arithmetic: no
  rounding and no infinities), counters and lengths as \<^typ>\<open>nat\<close>, clock readings
  (milliseconds since the epoch) as \<^typ>\<open>int\<close>. The value NaN is modelled where a service
  can receive or produce it: in the dynamic values below and in the score of an event.
  A JavaScript string is its sequence of UTF-16 code units, which is what \<open>length\<close> and
  \<open>charCodeAt\<close> read.
\<close>

type_synonym js_string = "nat list"

definition str :: "string \<Rightarrow> js_string" where
  "str s = map of_char s"

text \<open>
  The run-time checks of the validators (\<open>!x\<close>, \<open>typeof x\<close>, \<open>instanceof Date\<close>,
  \<open>Object.keys\<close>) look at values of any type, so the fields they inspect are dynamic values.
  A \<open>Date\<close> carries its time value, \<open>None\<close> for an invalid date; a plain object carries
  its own enumerable keys.
\<close>

datatype jsval =
    JUndefined
  | JNull
  | JBool bool
  | JNumber real
  | JNaN
  | JString js_string
  | JSymbol
  | JBigInt int
  | JDate "int option"
  | JObject "js_string list"

fun truthy :: "jsval \<Rightarrow> bool" where
  "truthy JUndefined = False"
| "truthy JNull = False"
| "truthy (JBool b) = b"
| "truthy (JNumber r) = (r \<noteq> 0)"
| "truthy JNaN = False"
| "truthy (JString s) = (s \<noteq> [])"
| "truthy JSymbol = True"
| "truthy (JBigInt n) = (n \<noteq> 0)"
| "truthy (JDate t) = True"
| "truthy (JObject ks) = True"

fun typeof :: "jsval \<Rightarrow> string" where
  "typeof JUndefined = ''undefined''"
| "typeof JNull = ''object''"
| "typeof (JBool b) = ''boolean''"
| "typeof (JNumber r) = ''number''"
| "typeof JNaN = ''number''"
| "typeof (JString s) = ''string''"
| "typeof JSymbol = ''symbol''"
| "typeof (JBigInt n) = ''bigint''"
| "typeof (JDate t) = ''object''"
| "typeof (JObject ks) = ''object''"

fun instanceof_Date :: "jsval \<Rightarrow> bool" where
  "instanceof_Date (JDate t) = True"
| "instanceof_Date v = False"

fun string_of :: "jsval \<Rightarrow> js_string" where
  "string_of (JString s) = s"
| "string_of v = []"

fun object_keys :: "jsval \<Rightarrow> js_string list" where
  "object_keys (JObject ks) = ks"
| "object_keys v = []"

text \<open>
  The error classes of the errors module, each a subclass of \<open>AppError\<close> with its HTTP
  status and its machine-readable code. The model keeps the message of an error and leaves
  out the details object, which only repeats the offending values. The three services
  throw \<open>ValidationError\<close> only.
\<close>

datatype app_error =
    ValidationError string
  | AuthError string
  | AuthorizationError string
  | NotFoundError string
  | ConflictError string
  | RateLimitError string
  | ExternalServiceError string
  | DatabaseError string
  | ConfigError string

fun statusCode :: "app_error \<Rightarrow> nat" where
  "statusCode (ValidationError m) = 400"
| "statusCode (AuthError m) = 401"
| "statusCode (AuthorizationError m) = 403"
| "statusCode (NotFoundError m) = 404"
| "statusCode (ConflictError m) = 409"
| "statusCode (RateLimitError m) = 429"
| "statusCode (ExternalServiceError m) = 502"
| "statusCode (DatabaseError m) = 500"
| "statusCode (ConfigError m) = 500"

fun error_code :: "app_error \<Rightarrow> string" where
  "error_code (ValidationError m) = ''VALIDATION_ERROR''"
| "error_code (AuthError m) = ''AUTH_ERROR''"
| "error_code (AuthorizationError m) = ''AUTHORIZATION_ERROR''"
| "error_code (NotFoundError m) = ''NOT_FOUND''"
| "error_code (ConflictError m) = ''CONFLICT''"
| "error_code (RateLimitError m) = ''RATE_LIMIT''"
| "error_code (ExternalServiceError m) = ''EXTERNAL_SERVICE_ERROR''"
| "error_code (DatabaseError m) = ''DATABASE_ERROR''"
| "error_code (ConfigError m) = ''CONFIG_ERROR''"

text \<open>The \<open>name\<close> each class gives its instances (\<open>this.name = ...\<close>).\<close>

fun error_name :: "app_error \<Rightarrow> string" where
  "error_name (ValidationError m) = ''ValidationError''"
| "error_name (AuthError m) = ''AuthError''"
| "error_name (AuthorizationError m) = ''AuthorizationError''"
| "error_name (NotFoundError m) = ''NotFoundError''"
| "error_name (ConflictError m) = ''ConflictError''"
| "error_name (RateLimitError m) = ''RateLimitError''"
| "error_name (ExternalServiceError m) = ''ExternalServiceError''"
| "error_name (DatabaseError m) = ''DatabaseError''"
| "error_name (ConfigError m) = ''ConfigError''"

text \<open>
  What a function can throw: an error of the errors module, or the \<open>TypeError\<close> of the
  language (a property read of \<open>null\<close>, the conversion of a symbol or a bigint to a
  number).
\<close>

datatype js_exception = Thrown app_error | TypeError

text \<open>
  A number that may be NaN (\<open>None\<close>). The conversions of the language that the event scorer
  applies to a metadata value: \<open>ToNumber\<close> (inside \<open>Math.min\<close>) and the time value of
  \<open>new Date(v)\<close>. Their two text parsers, \<open>StringToNumber\<close> and \<open>Date.parse\<close>, are
  parameters. A plain object converts through its text \<open>[object Object]\<close>, a date through
  its time value.
\<close>

type_synonym js_number = "real option"

record js_lib =
  StringToNumber :: "js_string \<Rightarrow> js_number"
  Date_parse :: "js_string \<Rightarrow> int option"

fun ToNumber :: "js_lib \<Rightarrow> jsval \<Rightarrow> js_exception + js_number" where
  "ToNumber lib JUndefined = Inr None"
| "ToNumber lib JNull = Inr (Some 0)"
| "ToNumber lib (JBool b) = Inr (Some (if b then 1 else 0))"
| "ToNumber lib (JNumber r) = Inr (Some r)"
| "ToNumber lib JNaN = Inr None"
| "ToNumber lib (JString s) = Inr (StringToNumber lib s)"
| "ToNumber lib JSymbol = Inl TypeError"
| "ToNumber lib (JBigInt n) = Inl TypeError"
| "ToNumber lib (JDate t) = Inr (map_option real_of_int t)"
| "ToNumber lib (JObject ks) = Inr (StringToNumber lib (str ''[object Object]''))"

text \<open>\<open>TimeClip\<close>: NaN beyond \<open>8.64e15\<close> milliseconds, else the number truncated towards
  zero.\<close>

definition TimeClip :: "js_number \<Rightarrow> int option" where
  "TimeClip n =
     (case n of
        None \<Rightarrow> None
      | Some r \<Rightarrow> if \<bar>r\<bar> > 8640000000000000 then None
                  else Some (if r < 0 then - \<lfloor>- r\<rfloor> else \<lfloor>r\<rfloor>))"

text \<open>\<open>new Date(v).getTime()\<close>.\<close>

fun Date_getTime :: "js_lib \<Rightarrow> jsval \<Rightarrow> js_exception + int option" where
  "Date_getTime lib (JDate t) = Inr t"
| "Date_getTime lib (JString s) = Inr (Date_parse lib s)"
| "Date_getTime lib (JObject ks) = Inr (Date_parse lib (str ''[object Object]''))"
| "Date_getTime lib v =
     (case ToNumber lib v of Inl x \<Rightarrow> Inl x | Inr n \<Rightarrow> Inr (TimeClip n))"

text \<open>The fields of the configuration schema that the services read, with the schema's defaults.\<close>

record config =
  MEMORY_DIMENSION :: nat
  LEARNING_RATE :: real
  GRADIENT_CLIP_NORM :: real
  SIGNIFICANCE_THRESHOLD :: real
  PRIVACY_EPSILON :: real
  PRIVACY_DELTA :: real

definition default_config :: config where
  "default_config =
     \<lparr>MEMORY_DIMENSION = 256, LEARNING_RATE = 1 / 1000, GRADIENT_CLIP_NORM = 1,
      SIGNIFICANCE_THRESHOLD = 1 / 2, PRIVACY_EPSILON = 1, PRIVACY_DELTA = 1 / 100000\<rparr>"

text \<open>What the schema accepts: \<open>int().positive()\<close>, \<open>positive()\<close>, \<open>min(0).max(1)\<close>.\<close>

definition config_valid :: "config \<Rightarrow> bool" where
  "config_valid cfg \<longleftrightarrow>
     0 < MEMORY_DIMENSION cfg \<and> 0 < LEARNING_RATE cfg \<and> 0 < GRADIENT_CLIP_NORM cfg \<and>
     0 \<le> SIGNIFICANCE_THRESHOLD cfg \<and> SIGNIFICANCE_THRESHOLD cfg \<le> 1 \<and>
     0 < PRIVACY_EPSILON cfg \<and> 0 < PRIVACY_DELTA cfg"

text \<open>
  What a call reads from outside: \<open>rand i\<close> is the value of the \<open>i\<close>-th call of
  \<open>Math.random()\<close> (in \<open>[0, 1)\<close>), \<open>clock i\<close> the \<open>i\<close>-th reading of the clock
  (\<open>new Date()\<close>, \<open>Date.now()\<close>), \<open>idSuffix\<close> the text of
  \<open>Math.random().toString(36).substr(2, 9)\<close> in a generated identifier.
\<close>

record env =
  rand :: "nat \<Rightarrow> real"
  clock :: "nat \<Rightarrow> int"
  idSuffix :: js_string

definition env_valid :: "env \<Rightarrow> bool" where
  "env_valid e \<longleftrightarrow> (\<forall>i. 0 \<le> rand e i \<and> rand e i < 1) \<and> (\<forall>i. clock e i \<le> clock e (Suc i))"

section \<open>Memory service\<close>

record MemoryState =
  userId :: js_string
  dimension :: nat
  state :: "real list"
  lastUpdate :: int
  eventCount :: nat
  significantEventCount :: nat
  totalLearningUpdates :: nat

record UpdateMetrics =
  significance :: real
  learningApplied :: bool
  stateChange :: real

record MemoryUpdateResult =
  res_userId :: js_string
  updated :: bool
  memoryState :: MemoryState
  metrics :: UpdateMetrics

text \<open>\<open>initializeMemory\<close>: a vector of \<open>MEMORY_DIMENSION\<close> draws \<open>(Math.random() - 0.5) * 0.01\<close>,
  the current time, and three counters at zero.\<close>

definition initializeMemory :: "config \<Rightarrow> env \<Rightarrow> js_string \<Rightarrow> MemoryState" where
  "initializeMemory cfg e uid =
     \<lparr>userId = uid,
      dimension = MEMORY_DIMENSION cfg,
      state = map (\<lambda>i. (rand e i - 1 / 2) * (1 / 100)) [0..<MEMORY_DIMENSION cfg],
      lastUpdate = clock e 0,
      eventCount = 0,
      significantEventCount = 0,
      totalLearningUpdates = 0\<rparr>"

text \<open>\<open>getMemoryState\<close> queries no store: it returns \<open>initializeMemory(userId)\<close>.\<close>

definition getMemoryState :: "config \<Rightarrow> env \<Rightarrow> js_string \<Rightarrow> MemoryState" where
  "getMemoryState cfg e uid = initializeMemory cfg e uid"

text \<open>\<open>applyTimeDecay\<close>; \<open>now\<close> is the clock reading inside the function.\<close>

definition applyTimeDecay :: "real list \<Rightarrow> int \<Rightarrow> int \<Rightarrow> real \<Rightarrow> real list" where
  "applyTimeDecay st lastUpd now decayFactor =
     (let timeDeltaMs = now - lastUpd;
          timeDeltaDays = real_of_int timeDeltaMs / (1000 * 60 * 60 * 24);
          decay = decayFactor powr timeDeltaDays
      in map (\<lambda>v. v * decay) st)"

text \<open>\<open>applyLSTMUpdate\<close>; \<open>eventEmbedding[i] || 0\<close> is \<open>0\<close> past the end of the embedding.\<close>

definition applyLSTMUpdate :: "real list \<Rightarrow> real list \<Rightarrow> real \<Rightarrow> real list" where
  "applyLSTMUpdate ms eventEmbedding learningRate =
     map (\<lambda>i.
        let v = ms ! i;
            embedding = (if i < length eventEmbedding then eventEmbedding ! i else 0);
            forgetGate = tanh (v * (9 / 10));
            inputGate = tanh embedding
        in forgetGate * (1 - learningRate) + inputGate * learningRate)
       [0..<length ms]"

text \<open>\<open>calculateStateChange\<close>: the loop runs over the indices of \<open>oldState\<close>; at its one
  call site \<open>newState\<close> has the same length.\<close>

definition calculateStateChange :: "real list \<Rightarrow> real list \<Rightarrow> real" where
  "calculateStateChange oldState newState =
     sqrt (foldl (\<lambda>sumSquares i.
              let diff = newState ! i - oldState ! i in sumSquares + diff * diff)
            0 [0..<length oldState])"

definition updateMemory ::
  "config \<Rightarrow> env \<Rightarrow> js_string \<Rightarrow> real list \<Rightarrow> real \<Rightarrow> app_error + MemoryUpdateResult" where
  "updateMemory cfg e uid eventEmbedding sig =
     (if sig < 0 \<or> sig > 1 then
        Inl (ValidationError ''Significance must be between 0 and 1'')
      else if length eventEmbedding \<noteq> MEMORY_DIMENSION cfg then
        Inl (ValidationError ''Event embedding dimension mismatch'')
      else
        let ms = getMemoryState cfg e uid;
            decayedState = applyTimeDecay (state ms) (lastUpdate ms) (clock e 1) (99 / 100);
            threshold = SIGNIFICANCE_THRESHOLD cfg;
            shouldLearn = (sig \<ge> threshold);
            (updatedState, stChange) =
              (if shouldLearn then
                 let learningRate = LEARNING_RATE cfg * sig;
                     upd = applyLSTMUpdate decayedState eventEmbedding learningRate;
                     sc = calculateStateChange decayedState upd;
                     clipNorm = GRADIENT_CLIP_NORM cfg
                 in (if sc > clipNorm then
                       let scale = clipNorm / sc
                       in (map (\<lambda>i. decayedState ! i + (upd ! i - decayedState ! i) * scale)
                             [0..<length upd], sc)
                     else (upd, sc))
               else (decayedState, 0));
            ms' = ms\<lparr>state := updatedState,
                     lastUpdate := clock e 2,
                     eventCount := eventCount ms + 1,
                     significantEventCount :=
                       (if shouldLearn then significantEventCount ms + 1
                        else significantEventCount ms),
                     totalLearningUpdates :=
                       (if shouldLearn then totalLearningUpdates ms + 1
                        else totalLearningUpdates ms)\<rparr>
        in Inr \<lparr>res_userId = uid,
                updated = shouldLearn,
                memoryState = ms',
                metrics = \<lparr>significance = sig,
                           learningApplied = shouldLearn,
                           stateChange = stChange\<rparr>\<rparr>)"

text \<open>
  \<open>batchUpdateMemory\<close>: every \<open>updateMemory\<close> call of the loop reads its own random draws
  and clock, so each event comes with the environment of its call. The first error ends
  the loop, as the exception does.
\<close>

fun batchLoop ::
  "config \<Rightarrow> js_string \<Rightarrow> MemoryState \<Rightarrow> (env \<times> real list \<times> real) list \<Rightarrow> app_error + MemoryState" where
  "batchLoop cfg uid ms [] = Inr ms"
| "batchLoop cfg uid ms ((e, emb, sig) # evs) =
     (case updateMemory cfg e uid emb sig of
        Inl err \<Rightarrow> Inl err
      | Inr r \<Rightarrow> batchLoop cfg uid (memoryState r) evs)"

definition batchUpdateMemory ::
  "config \<Rightarrow> env \<Rightarrow> js_string \<Rightarrow> (env \<times> real list \<times> real) list \<Rightarrow> app_error + MemoryState" where
  "batchUpdateMemory cfg e0 uid evs = batchLoop cfg uid (getMemoryState cfg e0 uid) evs"


text \<open>The vector \<open>updateMemory\<close> computes with \<open>applyTimeDecay\<close> from the loaded state.\<close>

definition decayedState :: "config \<Rightarrow> env \<Rightarrow> js_string \<Rightarrow> real list" where
  "decayedState cfg e uid =
     applyTimeDecay (state (getMemoryState cfg e uid)) (lastUpdate (getMemoryState cfg e uid))
       (clock e 1) (99 / 100)"

text \<open>The idiom \<open>Math.sqrt(xs.reduce((sum, v) => sum + v * v, 0))\<close> of the event and identity
  services (and of the memory tests).\<close>

definition vector_norm :: "real list \<Rightarrow> real" where
  "vector_norm xs = sqrt (foldl (\<lambda>sum v. sum + v * v) 0 xs)"

text \<open>The decimal text of a number in a template literal (\<open>`evt_${Date.now()}_...`\<close>).\<close>

function decimal :: "nat \<Rightarrow> js_string" where
  "decimal n = (if n < 10 then [48 + n] else decimal (n div 10) @ [48 + n mod 10])"
  by pat_completeness auto
termination
  by (relation "measure id") auto

definition decimal_int :: "int \<Rightarrow> js_string" where
  "decimal_int t = (if t < 0 then 45 # decimal (nat (- t)) else decimal (nat t))"

section \<open>Event service\<close>

text \<open>
  The metadata of an event as the scorer meets it. \<open>MetaValue v\<close>: the metadata is \<open>v\<close>, a
  value on which the reads \<open>metadata.importance\<close> and \<open>metadata.timestamp\<close> find nothing
  (\<open>undefined\<close>, a primitive, a date, an object without the two keys) or fail (\<open>null\<close>).
  \<open>MetaBag i t\<close>: an object whose two reads give \<open>i\<close> and \<open>t\<close>.
\<close>

datatype js_metadata = MetaValue jsval | MetaBag jsval jsval

text \<open>The metadata of the declared shape: \<open>importance\<close> a number when present,
  \<open>timestamp\<close> a valid date when present (its time value in milliseconds).\<close>

record EventMetadata =
  importance :: "real option"
  meta_timestamp :: "int option"

record EventInput =
  ev_userId :: jsval
  ev_content :: jsval
  ev_metadata :: js_metadata
  ev_timestamp :: jsval

record ProcessedEvent =
  eventId :: js_string
  pe_userId :: js_string
  pe_content :: js_string
  pe_embedding :: "real list"
  pe_significance :: js_number
  pe_metadata :: js_metadata
  pe_timestamp :: jsval
  processingTime :: int

text \<open>The \<open>reason\<close> text renders the score with \<open>toFixed(2)\<close>; the model keeps which of
  the two texts it is, with the score and the threshold it quotes.\<close>

datatype reason_text = ReasonAtLeast js_number real | ReasonBelow js_number real

record EventProcessingResult =
  event :: ProcessedEvent
  significant :: bool
  learningTriggered :: bool
  reason :: reason_text

definition validateEvent :: "EventInput \<Rightarrow> app_error + unit" where
  "validateEvent ev =
     (if \<not> truthy (ev_userId ev) \<or> typeof (ev_userId ev) \<noteq> ''string'' then
        Inl (ValidationError ''Invalid userId'')
      else if \<not> truthy (ev_content ev) \<or> typeof (ev_content ev) \<noteq> ''string'' then
        Inl (ValidationError ''Invalid content'')
      else if length (string_of (ev_content ev)) < 5 then
        Inl (ValidationError ''Content too short (minimum 5 characters)'')
      else if length (string_of (ev_content ev)) > 10000 then
        Inl (ValidationError ''Content too long (maximum 10000 characters)'')
      else if truthy (ev_timestamp ev) \<and> \<not> instanceof_Date (ev_timestamp ev) then
        Inl (ValidationError ''Invalid timestamp'')
      else Inr ())"

text \<open>\<open>generateEventId\<close>; \<open>k\<close> is the number of clock readings made before it.\<close>

definition generateEventId :: "env \<Rightarrow> nat \<Rightarrow> js_string" where
  "generateEventId e k = str ''evt_'' @ decimal_int (clock e k) @ str ''_'' @ idSuffix e"

definition createEmbedding :: "config \<Rightarrow> js_string \<Rightarrow> real list" where
  "createEmbedding cfg content =
     (let hash = foldl (\<lambda>acc ch. acc + ch) 0 content;
          embedding =
            map (\<lambda>i. sin (real (hash + i) * (1 / 10)) * (1 / 2)
                     + cos (real (hash + i) * (5 / 100)) * (3 / 10))
              [0..<MEMORY_DIMENSION cfg];
          norm = vector_norm embedding
      in map (\<lambda>v. v / (norm + 1 / 100000000)) embedding)"

text \<open>\<open>calculateSignificance\<close> on metadata of the declared shape; \<open>now\<close> is \<open>Date.now()\<close>.
  The tests \<open>if (metadata.importance)\<close> and \<open>if (metadata.timestamp)\<close> are truthiness
  tests: a number passes when it is not \<open>0\<close>, a date always.\<close>

definition calculateSignificance ::
  "int \<Rightarrow> js_string \<Rightarrow> real list \<Rightarrow> EventMetadata option \<Rightarrow> real" where
  "calculateSignificance now content embedding metadata_opt =
     (let metadata = (case metadata_opt of
                        None \<Rightarrow> \<lparr>importance = None, meta_timestamp = None\<rparr>
                      | Some m \<Rightarrow> m);
          score0 = 1 / 2;
          lengthFactor = min (real (length content) / 500) 1 * (2 / 10);
          score1 = score0 + lengthFactor;
          magnitude = vector_norm embedding;
          magnitudeFactor = min magnitude 1 * (2 / 10);
          score2 = score1 + magnitudeFactor;
          score3 = (case importance metadata of
                      None \<Rightarrow> score2
                    | Some imp \<Rightarrow> if imp \<noteq> 0 then score2 + min imp 1 * (2 / 10) else score2);
          score4 = (case meta_timestamp metadata of
                      None \<Rightarrow> score3
                    | Some ts \<Rightarrow>
                        let ageMs = now - ts;
                            ageDays = real_of_int ageMs / (1000 * 60 * 60 * 24);
                            recencyFactor = exp (- ageDays / 30) * (1 / 10)
                        in score3 + recencyFactor)
      in min (max score4 0) 1)"

text \<open>
  \<open>calculateSignificance\<close> on metadata of any value, as \<open>processEvent\<close> calls it. The
  default \<open>{}\<close> stands in for \<open>undefined\<close> only, so the first read on \<open>null\<close> throws.
  A truthy importance goes through \<open>ToNumber\<close>, a truthy timestamp through
  \<open>new Date(...).getTime()\<close>; a NaN from either makes the score NaN, which
  \<open>Math.max\<close> and \<open>Math.min\<close> pass on.
\<close>

fun metadata_reads :: "js_metadata \<Rightarrow> js_exception + jsval \<times> jsval" where
  "metadata_reads (MetaValue JNull) = Inl TypeError"
| "metadata_reads (MetaValue v) = Inr (JUndefined, JUndefined)"
| "metadata_reads (MetaBag i t) = Inr (i, t)"

definition calculateSignificance_js ::
  "js_lib \<Rightarrow> int \<Rightarrow> js_string \<Rightarrow> real list \<Rightarrow> js_metadata \<Rightarrow> js_exception + js_number" where
  "calculateSignificance_js lib now content embedding metadata =
     (let score0 = 1 / 2;
          lengthFactor = min (real (length content) / 500) 1 * (2 / 10);
          score1 = score0 + lengthFactor;
          magnitude = vector_norm embedding;
          magnitudeFactor = min magnitude 1 * (2 / 10);
          score2 = score1 + magnitudeFactor
      in case metadata_reads metadata of
           Inl x \<Rightarrow> Inl x
         | Inr (imp, ts) \<Rightarrow>
             (case (if truthy imp then
                      (case ToNumber lib imp of
                         Inl x \<Rightarrow> Inl x
                       | Inr n \<Rightarrow> Inr (map_option (\<lambda>v. score2 + min v 1 * (2 / 10)) n))
                    else Inr (Some score2)) of
                Inl x \<Rightarrow> Inl x
              | Inr score3 \<Rightarrow>
                  (case (if truthy ts then
                           (case Date_getTime lib ts of
                              Inl x \<Rightarrow> Inl x
                            | Inr tv \<Rightarrow>
                                Inr (case (score3, tv) of
                                       (Some s3, Some t) \<Rightarrow>
                                         let ageMs = now - t;
                                             ageDays = real_of_int ageMs / (1000 * 60 * 60 * 24);
                                             recencyFactor = exp (- ageDays / 30) * (1 / 10)
                                         in Some (s3 + recencyFactor)
                                     | _ \<Rightarrow> None))
                         else Inr score3) of
                     Inl x \<Rightarrow> Inl x
                   | Inr score4 \<Rightarrow> Inr (map_option (\<lambda>s4. min (max s4 0) 1) score4))))"

text \<open>
  \<open>processEvent\<close>. The clock is read in program order: at the start; inside the scorer
  when \<open>metadata.timestamp\<close> is truthy; for the event id; for \<open>new Date()\<close> when the event
  has no truthy timestamp; at the end. A comparison with NaN is false.
\<close>

definition processEvent ::
  "js_lib \<Rightarrow> config \<Rightarrow> env \<Rightarrow> EventInput \<Rightarrow> js_exception + EventProcessingResult" where
  "processEvent lib cfg e ev =
     (let startTime = clock e 0 in
      case validateEvent ev of
        Inl err \<Rightarrow> Inl (Thrown err)
      | Inr _ \<Rightarrow>
          let content = string_of (ev_content ev);
              embedding = createEmbedding cfg content
          in case calculateSignificance_js lib (clock e 1) content embedding (ev_metadata ev) of
               Inl x \<Rightarrow> Inl x
             | Inr sig \<Rightarrow>
                 let k1 = (case metadata_reads (ev_metadata ev) of
                             Inr (imp, ts) \<Rightarrow> if truthy ts then 2 else 1
                           | Inl x \<Rightarrow> 1);
                     k2 = k1 + 1;
                     k3 = (if truthy (ev_timestamp ev) then k2 else k2 + 1);
                     processedEvent =
                       \<lparr>eventId = generateEventId e k1,
                        pe_userId = string_of (ev_userId ev),
                        pe_content = content,
                        pe_embedding = embedding,
                        pe_significance = sig,
                        pe_metadata = (case ev_metadata ev of
                                         MetaValue v \<Rightarrow>
                                           if truthy v then MetaValue v
                                           else MetaBag JUndefined JUndefined
                                       | MetaBag i t \<Rightarrow> MetaBag i t),
                        pe_timestamp = (if truthy (ev_timestamp ev) then ev_timestamp ev
                                        else JDate (Some (clock e k2))),
                        processingTime = clock e k3 - startTime\<rparr>;
                     threshold = SIGNIFICANCE_THRESHOLD cfg;
                     is_significant = (case sig of None \<Rightarrow> False | Some sg \<Rightarrow> sg \<ge> threshold)
                 in Inr \<lparr>event = processedEvent,
                         significant = is_significant,
                         learningTriggered = is_significant,
                         reason = (if is_significant then ReasonAtLeast sig threshold
                                   else ReasonBelow sig threshold)\<rparr>)"

section \<open>Semantic service: cosine similarity\<close>

text \<open>The loop of \<open>calculateCosineSimilarity\<close> and of \<open>compareIdentities\<close>: three sums over
  the indices of the first vector, each in its own accumulator.\<close>

definition cosine_of :: "real list \<Rightarrow> real list \<Rightarrow> real" where
  "cosine_of vec1 vec2 =
     (let idx = [0..<length vec1];
          dotProduct = foldl (\<lambda>acc i. acc + vec1 ! i * vec2 ! i) 0 idx;
          norm1 = foldl (\<lambda>acc i. acc + vec1 ! i * vec1 ! i) 0 idx;
          norm2 = foldl (\<lambda>acc i. acc + vec2 ! i * vec2 ! i) 0 idx;
          denominator = sqrt norm1 * sqrt norm2
      in if denominator = 0 then 0 else dotProduct / denominator)"

definition calculateCosineSimilarity :: "real list \<Rightarrow> real list \<Rightarrow> app_error + real" where
  "calculateCosineSimilarity vec1 vec2 =
     (if length vec1 \<noteq> length vec2 then Inl (ValidationError ''Vector dimensions must match'')
      else Inr (cosine_of vec1 vec2))"

section \<open>Identity service\<close>

record IdentityInput =
  id_userId :: jsval
  id_data :: jsval
  id_json :: js_string
  id_privacyLevel :: jsval

record IdentityMetadata =
  dataFields :: "js_string list"
  embeddingNorm :: real
  noiseScale :: real

record EncodedIdentity =
  identityId :: js_string
  enc_userId :: js_string
  embedding :: "real list"
  privacyEpsilon :: real
  privacyDelta :: real
  privacyLevel :: js_string
  createdAt :: int
  enc_metadata :: IdentityMetadata

record IdentitySimilarity =
  userId1 :: js_string
  userId2 :: js_string
  similarity :: real
  privacyLoss :: real

record operation =
  epsilon :: real

definition generateIdentityId :: "env \<Rightarrow> js_string" where
  "generateIdentityId e = str ''id_'' @ decimal_int (clock e 0) @ str ''_'' @ idSuffix e"

definition validateIdentity :: "IdentityInput \<Rightarrow> app_error + unit" where
  "validateIdentity identity =
     (if \<not> truthy (id_userId identity) \<or> typeof (id_userId identity) \<noteq> ''string'' then
        Inl (ValidationError ''Invalid userId'')
      else if \<not> truthy (id_data identity) \<or> typeof (id_data identity) \<noteq> ''object'' then
        Inl (ValidationError ''Invalid data'')
      else if length (object_keys (id_data identity)) = 0 then
        Inl (ValidationError ''Identity data cannot be empty'')
      else if truthy (id_privacyLevel identity)
              \<and> id_privacyLevel identity \<notin>
                  set [JString (str ''high''), JString (str ''medium''), JString (str ''low'')] then
        Inl (ValidationError ''Invalid privacyLevel'')
      else Inr ())"

text \<open>
  \<open>createIdentityEmbedding\<close>. \<open>dataStr\<close> is the text \<open>JSON.stringify(data)\<close>, the field
  \<open>id_json\<close> of the input. \<open>(hash << 5) - hash + char\<close> followed by \<open>hash & hash\<close> is
  arithmetic modulo \<open>2^32\<close> read as a signed 32-bit integer.
\<close>

definition identity_hash :: "js_string \<Rightarrow> 32 word" where
  "identity_hash dataStr = foldl (\<lambda>hash ch. push_bit 5 hash - hash + word_of_nat ch) 0 dataStr"

definition createIdentityEmbedding :: "config \<Rightarrow> js_string \<Rightarrow> real list" where
  "createIdentityEmbedding cfg dataStr =
     (let hash = sint (identity_hash dataStr);
          embedding =
            map (\<lambda>i. let seed = real_of_int (hash + int i)
                     in sin (seed * (1 / 10)) * (3 / 10)
                        + cos (seed * (5 / 100)) * (2 / 10)
                        + sin (seed * (2 / 100)) * (1 / 10))
              [0..<MEMORY_DIMENSION cfg];
          norm = vector_norm embedding
      in map (\<lambda>v. v / (norm + 1 / 100000000)) embedding)"

definition calculateNoiseScale :: "config \<Rightarrow> js_string \<Rightarrow> real \<Rightarrow> real" where
  "calculateNoiseScale cfg level sensitivity =
     (let eps = PRIVACY_EPSILON cfg;
          adjustedEpsilon = (if level = str ''high'' then eps / 3
                             else if level = str ''low'' then eps * (15 / 10)
                             else eps)
      in sensitivity / adjustedEpsilon)"

text \<open>\<open>addLaplaceNoise\<close>; \<open>u\<close> and \<open>r\<close> are its two draws. (At \<open>u = 0\<close> JavaScript's
  \<open>Math.log\<close> is \<open>-Infinity\<close>, which the reals do not have.)\<close>

definition addLaplaceNoise :: "real \<Rightarrow> real \<Rightarrow> real \<Rightarrow> real \<Rightarrow> real" where
  "addLaplaceNoise v scale u r =
     (let w = r - 1 / 2;
          noise = scale * ln u * sgn w
      in v + noise)"

definition applyDifferentialPrivacy :: "config \<Rightarrow> env \<Rightarrow> real list \<Rightarrow> js_string \<Rightarrow> real list \<times> real" where
  "applyDifferentialPrivacy cfg e emb level =
     (let scale = calculateNoiseScale cfg level 1;
          noised = map (\<lambda>i. addLaplaceNoise (emb ! i) scale (rand e (2 * i)) (rand e (2 * i + 1)))
                     [0..<length emb];
          norm = vector_norm noised;
          normalized = map (\<lambda>v. v / (norm + 1 / 100000000)) noised
      in (normalized, scale))"

definition encodeIdentity :: "config \<Rightarrow> env \<Rightarrow> IdentityInput \<Rightarrow> app_error + EncodedIdentity" where
  "encodeIdentity cfg e identity =
     (case validateIdentity identity of
        Inl err \<Rightarrow> Inl err
      | Inr _ \<Rightarrow>
          let level = (if truthy (id_privacyLevel identity) then string_of (id_privacyLevel identity)
                       else str ''medium'');
              baseEmbedding = createIdentityEmbedding cfg (id_json identity);
              (emb, scale) = applyDifferentialPrivacy cfg e baseEmbedding level;
              actualEpsilon = PRIVACY_EPSILON cfg *
                (if level = str ''high'' then 33 / 100 else if level = str ''low'' then 15 / 10 else 1)
          in Inr \<lparr>identityId = generateIdentityId e,
                  enc_userId = string_of (id_userId identity),
                  embedding = emb,
                  privacyEpsilon = actualEpsilon,
                  privacyDelta = PRIVACY_DELTA cfg,
                  privacyLevel = level,
                  createdAt = clock e 1,
                  enc_metadata = \<lparr>dataFields = object_keys (id_data identity),
                                   embeddingNorm = vector_norm emb,
                                   noiseScale = scale\<rparr>\<rparr>)"

definition calculatePrivacyLoss :: "config \<Rightarrow> real \<Rightarrow> real" where
  "calculatePrivacyLoss cfg queryCount = PRIVACY_EPSILON cfg * sqrt queryCount"

definition compareIdentities ::
  "config \<Rightarrow> EncodedIdentity \<Rightarrow> EncodedIdentity \<Rightarrow> app_error + IdentitySimilarity" where
  "compareIdentities cfg identity1 identity2 =
     (if length (embedding identity1) \<noteq> length (embedding identity2) then
        Inl (ValidationError ''Identity embeddings have different dimensions'')
      else
        Inr \<lparr>userId1 = enc_userId identity1,
             userId2 = enc_userId identity2,
             similarity = cosine_of (embedding identity1) (embedding identity2),
             privacyLoss = calculatePrivacyLoss cfg 1\<rparr>)"

definition calculateAggregateLoss :: "config \<Rightarrow> operation list \<Rightarrow> real" where
  "calculateAggregateLoss cfg operations =
     (let delta = PRIVACY_DELTA cfg;
          sumSquares = foldl (\<lambda>sum op. sum + epsilon op * epsilon op) 0 operations;
          factor = sqrt (2 * ln (2 / delta))
      in factor * sqrt sumSquares)"

section \<open>The significance score as the specification words it\<close>

text \<open>
  The specification gives the score as one clamped sum: base \<open>0.5\<close>, a length factor
  \<open>min(len(text)/500, 1) * 0.2\<close>, an embedding-magnitude factor
  \<open>min(\<parallel>embedding\<parallel>, 1) * 0.2\<close>, an importance factor \<open>min(importance, 1) * 0.2\<close>
  if an importance is provided, and a recency factor \<open>exp(-age_days/30) * 0.1\<close> if a
  timestamp is provided. These three definitions follow those words, not the code.
\<close>

definition clamp01 :: "real \<Rightarrow> real" where
  "clamp01 x = (if x < 0 then 0 else if x > 1 then 1 else x)"

definition euclidean_norm :: "real list \<Rightarrow> real" where
  "euclidean_norm xs = sqrt (\<Sum>v\<leftarrow>xs. v\<^sup>2)"

definition significance_spec :: "int \<Rightarrow> js_string \<Rightarrow> real list \<Rightarrow> real option \<Rightarrow> int option \<Rightarrow> real" where
  "significance_spec now text emb imp ts =
     clamp01 (1 / 2
       + min (real (length text) / 500) 1 * (2 / 10)
       + min (euclidean_norm emb) 1 * (2 / 10)
       + (case imp of Some v \<Rightarrow> min v 1 * (2 / 10) | None \<Rightarrow> 0)
       + (case ts of
            Some t \<Rightarrow> exp (- (real_of_int (now - t) / 86400000) / 30) * (1 / 10)
          | None \<Rightarrow> 0))"

section \<open>Shapes of metadata and timestamps\<close>

text \<open>
  The shapes the statements about \<open>processEvent\<close> speak of: a value that is absent or a
  number, absent or a number that is not negative, absent or a valid date; the number and
  the time such a value carries; and a metadata that is absent or an object whose
  importance is absent or a number and whose timestamp is absent or a valid date.
\<close>

fun absent_or_number :: "jsval \<Rightarrow> bool" where
  "absent_or_number JUndefined = True"
| "absent_or_number (JNumber v) = True"
| "absent_or_number v = False"

fun absent_or_nonneg_number :: "jsval \<Rightarrow> bool" where
  "absent_or_nonneg_number JUndefined = True"
| "absent_or_nonneg_number (JNumber v) = (0 \<le> v)"
| "absent_or_nonneg_number v = False"

fun absent_or_valid_date :: "jsval \<Rightarrow> bool" where
  "absent_or_valid_date JUndefined = True"
| "absent_or_valid_date (JDate (Some t)) = True"
| "absent_or_valid_date v = False"

fun number_of :: "jsval \<Rightarrow> real option" where
  "number_of (JNumber v) = Some v"
| "number_of v = None"

fun time_of :: "jsval \<Rightarrow> int option" where
  "time_of (JDate (Some t)) = Some t"
| "time_of v = None"

fun declared_metadata :: "js_metadata \<Rightarrow> bool" where
  "declared_metadata (MetaValue v) = (v = JUndefined)"
| "declared_metadata (MetaBag i t) = (absent_or_number i \<and> absent_or_valid_date t)"

fun declared_of :: "js_metadata \<Rightarrow> EventMetadata option" where
  "declared_of (MetaValue v) = None"
| "declared_of (MetaBag i t) = Some \<lparr>importance = number_of i, meta_timestamp = time_of t\<rparr>"

fun nonneg_metadata :: "js_metadata \<Rightarrow> bool" where
  "nonneg_metadata (MetaValue v) = (v = JUndefined)"
| "nonneg_metadata (MetaBag i t) = (absent_or_nonneg_number i \<and> absent_or_valid_date t)"

fun content_in_range :: "jsval \<Rightarrow> bool" where
  "content_in_range (JString c) = (5 \<le> length c \<and> length c \<le> 10000)"
| "content_in_range v = False"

fun nonempty_string :: "jsval \<Rightarrow> bool" where
  "nonempty_string (JString u) = (u \<noteq> [])"
| "nonempty_string v = False"

section \<open>Concrete inputs\<close>

text \<open>An environment for the examples: every draw is \<open>1/4\<close>, the clock advances by one
  millisecond per reading.\<close>

definition env0 :: env where
  "env0 = \<lparr>rand = (\<lambda>i. 1 / 4), clock = (\<lambda>i. 1700000000000 + int i),
            idSuffix = str ''k3j9x0q1z''\<rparr>"

text \<open>A configuration the schema accepts (\<open>LEARNING_RATE\<close> is any positive number): the
  default one with the learning rate \<open>1\<close>.\<close>

definition eager_config :: config where
  "eager_config = default_config\<lparr>LEARNING_RATE := 1\<rparr>"

text \<open>Parsers for the examples, none of which holds a text to parse: they answer NaN.\<close>

definition lib0 :: js_lib where
  "lib0 = \<lparr>StringToNumber = (\<lambda>s. None), Date_parse = (\<lambda>s. None)\<rparr>"

text \<open>The inputs of the repository's tests: an identity with one field, a short event
  without metadata, and a mock encoded identity that has only a user id and an embedding of
  interest. Then the short event with an empty user id, with \<open>null\<close> for metadata, with an
  importance and a date in its metadata, with a negative importance, and with an invalid
  date (\<open>new Date('not-a-date')\<close>) in its metadata.\<close>

definition john :: IdentityInput where
  "john = \<lparr>id_userId = JString (str ''test-user-123''),
           id_data = JObject [str ''name''],
           id_json = str ''{\"name\":\"John\"}'',
           id_privacyLevel = JUndefined\<rparr>"

definition event_ok :: EventInput where
  "event_ok = \<lparr>ev_userId = JString (str ''test-user-123''),
               ev_content = JString (str ''Test content''),
               ev_metadata = MetaValue JUndefined,
               ev_timestamp = JUndefined\<rparr>"

definition event_no_user :: EventInput where
  "event_no_user = event_ok\<lparr>ev_userId := JString []\<rparr>"

definition event_null_metadata :: EventInput where
  "event_null_metadata = event_ok\<lparr>ev_metadata := MetaValue JNull\<rparr>"

definition event_rated :: EventInput where
  "event_rated =
     event_ok\<lparr>ev_metadata := MetaBag (JNumber (7 / 10)) (JDate (Some 1699999990000))\<rparr>"

definition event_unimportant :: EventInput where
  "event_unimportant = event_ok\<lparr>ev_metadata := MetaBag (JNumber (- 5)) JUndefined\<rparr>"

definition event_undated :: EventInput where
  "event_undated = event_ok\<lparr>ev_metadata := MetaBag JUndefined (JDate None)\<rparr>"

definition mock_identity :: "js_string \<Rightarrow> real list \<Rightarrow> EncodedIdentity" where
  "mock_identity uid emb =
     \<lparr>identityId = [], enc_userId = uid, embedding = emb, privacyEpsilon = 1,
      privacyDelta = 1 / 100000, privacyLevel = str ''medium'', createdAt = 0,
      enc_metadata = \<lparr>dataFields = [], embeddingNorm = 0, noiseScale = 1\<rparr>\<rparr>"

section \<open>Memory service: counters and the path below the threshold\<close>

lemma updateMemory_valid_Inr:
  assumes "0 \<le> sig" and "sig \<le> 1" and "length emb = MEMORY_DIMENSION cfg"
  shows "\<exists>r. updateMemory cfg e uid emb sig = Inr r \<and> eventCount (memoryState r) = 1"
  using assms
  by (simp add: updateMemory_def Let_def getMemoryState_def initializeMemory_def
      split: prod.splits)

lemma batchLoop_eventCount:
  assumes "\<forall>(e, emb, sig) \<in> set evs. 0 \<le> sig \<and> sig \<le> 1 \<and> length emb = MEMORY_DIMENSION cfg"
    and "evs \<noteq> []"
  shows "\<exists>ms'. batchLoop cfg uid ms evs = Inr ms' \<and> eventCount ms' = 1"
  using assms
proof (induction evs arbitrary: ms)
  case Nil
  then show ?case by simp
next
  case (Cons x evs)
  obtain e emb sig where x: "x = (e, emb, sig)" by (cases x)
  with Cons.prems have v: "0 \<le> sig" "sig \<le> 1" "length emb = MEMORY_DIMENSION cfg"
    by auto
  from updateMemory_valid_Inr [OF v] obtain r
    where r: "updateMemory cfg e uid emb sig = Inr r" "eventCount (memoryState r) = 1"
    by blast
  show ?case
  proof (cases evs)
    case Nil
    with r x show ?thesis by simp
  next
    case (Cons y ys)
    with Cons.IH [of "memoryState r"] Cons.prems r x show ?thesis by auto
  qed
qed

text \<open>
  Claim C2. A valid call of \<open>updateMemory\<close> (significance in \<open>[0, 1]\<close>, embedding of the
  configured dimension) whose significance is strictly below the significance threshold
  returns a result in which \<open>eventCount\<close> is the loaded count plus one,
  \<open>significantEventCount\<close> and \<open>totalLearningUpdates\<close> are the loaded values, the
  \<open>stateChange\<close> metric is \<open>0\<close>, no learning is reported, and the vector is exactly the
  time-decayed loaded vector.
\<close>

theorem updateMemory_below_threshold:
  assumes "0 \<le> sig" and "sig \<le> 1" and "length emb = MEMORY_DIMENSION cfg"
    and "sig < SIGNIFICANCE_THRESHOLD cfg"
  shows "\<exists>r. updateMemory cfg e uid emb sig = Inr r
    \<and> eventCount (memoryState r) = eventCount (getMemoryState cfg e uid) + 1
    \<and> significantEventCount (memoryState r) = significantEventCount (getMemoryState cfg e uid)
    \<and> totalLearningUpdates (memoryState r) = totalLearningUpdates (getMemoryState cfg e uid)
    \<and> stateChange (metrics r) = 0
    \<and> \<not> learningApplied (metrics r)
    \<and> state (memoryState r) =
        applyTimeDecay (state (getMemoryState cfg e uid))
          (lastUpdate (getMemoryState cfg e uid)) (clock e 1) (99 / 100)"
  using assms by (simp add: updateMemory_def Let_def)

theorem updateMemory_below_threshold_witness:
  "(0::real) \<le> 1 / 10 \<and> (1 / 10 :: real) \<le> 1
   \<and> length (replicate 256 (1 / 100 :: real)) = MEMORY_DIMENSION default_config
   \<and> (1 / 10 :: real) < SIGNIFICANCE_THRESHOLD default_config
   \<and> (\<exists>r. updateMemory default_config env0 (str ''u1'') (replicate 256 (1 / 100)) (1 / 10) = Inr r
      \<and> eventCount (memoryState r) = 1
      \<and> significantEventCount (memoryState r) = 0
      \<and> totalLearningUpdates (memoryState r) = 0
      \<and> stateChange (metrics r) = 0)"
proof -
  have h: "length (replicate 256 (1 / 100 :: real)) = MEMORY_DIMENSION default_config"
    "(1 / 10 :: real) < SIGNIFICANCE_THRESHOLD default_config"
    by (simp_all add: default_config_def)
  from updateMemory_below_threshold
    [of "1 / 10" "replicate 256 (1 / 100)" default_config env0 "str ''u1''", OF _ _ h]
  obtain r where
    "updateMemory default_config env0 (str ''u1'') (replicate 256 (1 / 100)) (1 / 10) = Inr r"
    "eventCount (memoryState r) = eventCount (getMemoryState default_config env0 (str ''u1'')) + 1"
    "significantEventCount (memoryState r) =
       significantEventCount (getMemoryState default_config env0 (str ''u1''))"
    "totalLearningUpdates (memoryState r) =
       totalLearningUpdates (getMemoryState default_config env0 (str ''u1''))"
    "stateChange (metrics r) = 0"
    by auto
  then show ?thesis using h
    by (auto simp: getMemoryState_def initializeMemory_def)
qed

text \<open>
  Claim C10. \<open>getMemoryState\<close> loads nothing: for every user and every environment it is
  the freshly initialised state, with \<open>eventCount\<close>, \<open>significantEventCount\<close> and
  \<open>totalLearningUpdates\<close> all \<open>0\<close>. So every valid \<open>updateMemory\<close> call returns a state
  with \<open>eventCount = 1\<close>, and so does a batch of any positive number of valid updates, whose
  result is the state returned by its last call.
\<close>

theorem getMemoryState_always_fresh:
  "getMemoryState cfg e uid = initializeMemory cfg e uid
   \<and> eventCount (getMemoryState cfg e uid) = 0
   \<and> significantEventCount (getMemoryState cfg e uid) = 0
   \<and> totalLearningUpdates (getMemoryState cfg e uid) = 0
   \<and> (0 \<le> sig \<and> sig \<le> 1 \<and> length emb = MEMORY_DIMENSION cfg \<longrightarrow>
        (\<exists>r. updateMemory cfg e uid emb sig = Inr r \<and> eventCount (memoryState r) = 1))
   \<and> ((\<forall>(e', emb', sig') \<in> set evs.
          0 \<le> sig' \<and> sig' \<le> 1 \<and> length emb' = MEMORY_DIMENSION cfg) \<and> evs \<noteq> [] \<longrightarrow>
        (\<exists>ms'. batchUpdateMemory cfg e uid evs = Inr ms' \<and> eventCount ms' = 1))"
proof -
  have "eventCount (getMemoryState cfg e uid) = 0"
    "significantEventCount (getMemoryState cfg e uid) = 0"
    "totalLearningUpdates (getMemoryState cfg e uid) = 0"
    by (simp_all add: getMemoryState_def initializeMemory_def)
  moreover have "getMemoryState cfg e uid = initializeMemory cfg e uid"
    by (simp add: getMemoryState_def)
  moreover have "0 \<le> sig \<and> sig \<le> 1 \<and> length emb = MEMORY_DIMENSION cfg \<longrightarrow>
        (\<exists>r. updateMemory cfg e uid emb sig = Inr r \<and> eventCount (memoryState r) = 1)"
    using updateMemory_valid_Inr by blast
  moreover have "(\<forall>(e', emb', sig') \<in> set evs.
          0 \<le> sig' \<and> sig' \<le> 1 \<and> length emb' = MEMORY_DIMENSION cfg) \<and> evs \<noteq> [] \<longrightarrow>
        (\<exists>ms'. batchUpdateMemory cfg e uid evs = Inr ms' \<and> eventCount ms' = 1)"
    unfolding batchUpdateMemory_def using batchLoop_eventCount by blast
  ultimately show ?thesis by blast
qed

theorem getMemoryState_always_fresh_witness:
  "eventCount (getMemoryState default_config env0 (str ''u1'')) = 0
   \<and> (\<exists>r. updateMemory default_config env0 (str ''u1'') (replicate 256 (1 / 10)) (4 / 5) = Inr r
        \<and> eventCount (memoryState r) = 1)
   \<and> (\<exists>ms'. batchUpdateMemory default_config env0 (str ''u1'')
          [(env0, replicate 256 (1 / 10), 4 / 5), (env0, replicate 256 (1 / 10), 3 / 10),
           (env0, replicate 256 (1 / 10), 9 / 10)] = Inr ms'
        \<and> eventCount ms' = 1)"
proof -
  have h: "length (replicate 256 (1 / 10 :: real)) = MEMORY_DIMENSION default_config"
    by (simp add: default_config_def)
  show ?thesis
    using h getMemoryState_always_fresh
      [of default_config env0 "str ''u1''" "4 / 5" "replicate 256 (1 / 10)"
          "[(env0, replicate 256 (1 / 10), 4 / 5), (env0, replicate 256 (1 / 10), 3 / 10),
            (env0, replicate 256 (1 / 10), 9 / 10)]"]
    by auto
qed

section \<open>Memory service: sizes of vectors\<close>


lemma foldl_add_sum_list:
  "foldl (\<lambda>s x. s + f x) a xs = (a::real) + sum_list (map f xs)"
  by (induction xs arbitrary: a) simp_all

lemma sum_list_sq_le:
  assumes "\<forall>x \<in> set xs. \<bar>f x\<bar> \<le> (c::real)"
  shows "sum_list (map (\<lambda>x. f x * f x) xs) \<le> real (length xs) * (c * c)"
  using assms
proof (induction xs)
  case Nil
  then show ?case by simp
next
  case (Cons x xs)
  then have "\<bar>f x\<bar> \<le> c" by simp
  then have "f x * f x \<le> c * c"
    by (metis abs_mult_self_eq abs_ge_zero mult_mono')
  with Cons show ?case by (simp add: algebra_simps)
qed

lemma sum_list_sq_ge:
  assumes "\<forall>x \<in> set xs. (c::real) \<le> f x" and "0 \<le> c"
  shows "real (length xs) * (c * c) \<le> sum_list (map (\<lambda>x. f x * f x) xs)"
  using assms
proof (induction xs)
  case Nil
  then show ?case by simp
next
  case (Cons x xs)
  then have "c \<le> f x" by simp
  with \<open>0 \<le> c\<close> have "c * c \<le> f x * f x"
    by (simp add: mult_mono')
  with Cons show ?case by (simp add: algebra_simps)
qed

lemma vector_norm_le:
  assumes "\<forall>x \<in> set xs. \<bar>x\<bar> \<le> c" and "0 \<le> c"
  shows "vector_norm xs \<le> sqrt (real (length xs)) * c"
proof -
  have "sum_list (map (\<lambda>x. x * x) xs) \<le> real (length xs) * (c * c)"
    using sum_list_sq_le [of xs "\<lambda>x. x" c] assms by simp
  then have "vector_norm xs \<le> sqrt (real (length xs) * (c * c))"
    by (simp add: vector_norm_def foldl_add_sum_list)
  also have "\<dots> = sqrt (real (length xs)) * c"
    using \<open>0 \<le> c\<close> by (simp add: real_sqrt_mult)
  finally show ?thesis .
qed

lemma calculateStateChange_le:
  assumes "\<forall>i < length old. \<bar>new ! i - old ! i\<bar> \<le> c" and "0 \<le> c"
  shows "calculateStateChange old new \<le> sqrt (real (length old)) * c"
proof -
  have "sum_list (map (\<lambda>i. (new ! i - old ! i) * (new ! i - old ! i)) [0..<length old])
        \<le> real (length [0..<length old]) * (c * c)"
    using assms by (intro sum_list_sq_le) simp
  then have "calculateStateChange old new \<le> sqrt (real (length old) * (c * c))"
    by (simp add: calculateStateChange_def Let_def foldl_add_sum_list)
  also have "\<dots> = sqrt (real (length old)) * c"
    using \<open>0 \<le> c\<close> by (simp add: real_sqrt_mult)
  finally show ?thesis .
qed

lemma calculateStateChange_ge:
  assumes "\<forall>i < length old. c \<le> new ! i - old ! i" and "0 \<le> c"
  shows "sqrt (real (length old)) * c \<le> calculateStateChange old new"
proof -
  have "real (length [0..<length old]) * (c * c)
        \<le> sum_list (map (\<lambda>i. (new ! i - old ! i) * (new ! i - old ! i)) [0..<length old])"
    using assms by (intro sum_list_sq_ge) simp_all
  then have "sqrt (real (length old) * (c * c)) \<le> calculateStateChange old new"
    by (simp add: calculateStateChange_def Let_def foldl_add_sum_list)
  moreover have "sqrt (real (length old) * (c * c)) = sqrt (real (length old)) * c"
    using \<open>0 \<le> c\<close> by (simp add: real_sqrt_mult)
  ultimately show ?thesis by simp
qed

lemma tanh_abs_le_double: "\<bar>tanh (x::real)\<bar> \<le> 2 * \<bar>x\<bar>"
proof -
  define y where "y = \<bar>x\<bar>"
  define t where "t = exp (- 2 * y)"
  have y: "0 \<le> y" by (simp add: y_def)
  have t0: "0 < t" by (simp add: t_def)
  have t1: "t \<le> 1" using y by (simp add: t_def)
  have "1 + (- 2 * y) \<le> t" unfolding t_def by (rule exp_ge_add_one_self)
  then have a: "1 - t \<le> 2 * y" by simp
  have "(1 - t) / (1 + t) \<le> (1 - t) / 1"
    using t0 t1 by (intro divide_left_mono) simp_all
  then have "tanh y \<le> 1 - t"
    by (simp add: tanh_real_altdef t_def)
  with a have "tanh y \<le> 2 * y" by simp
  then show ?thesis by (simp add: y_def tanh_real_abs)
qed

lemma tanh_ge_large:
  assumes "0 < (x::real)"
  shows "1 - 2 / (1 + 2 * x) \<le> tanh x"
proof -
  define t where "t = exp (- 2 * x)"
  have t0: "0 < t" by (simp add: t_def)
  have "1 + 2 * x \<le> exp (2 * x)" by (rule exp_ge_add_one_self)
  then have "1 / exp (2 * x) \<le> 1 / (1 + 2 * x)"
    using assms by (intro divide_left_mono) simp_all
  then have t1: "t \<le> 1 / (1 + 2 * x)" by (simp add: t_def exp_minus field_simps)
  have "(1 - 2 * t) * (1 + t) \<le> 1 - t" using t0 by (simp add: algebra_simps)
  then have "1 - 2 * t \<le> (1 - t) / (1 + t)"
    using t0 by (simp add: pos_le_divide_eq)
  then have "1 - 2 * t \<le> tanh x" by (simp add: tanh_real_altdef t_def)
  moreover have "1 - 2 / (1 + 2 * x) \<le> 1 - 2 * t" using t1 by simp
  ultimately show ?thesis by simp
qed


lemma length_decayedState: "length (decayedState cfg e uid) = MEMORY_DIMENSION cfg"
  by (simp add: decayedState_def applyTimeDecay_def getMemoryState_def initializeMemory_def Let_def)

lemma decayedState_bound:
  assumes "env_valid e" and "i < MEMORY_DIMENSION cfg"
  shows "\<bar>decayedState cfg e uid ! i\<bar> \<le> 1 / 200"
proof -
  define days where "days = real_of_int (clock e 1 - clock e 0) / (1000 * 60 * 60 * 24)"
  define decay where "decay = (99 / 100 :: real) powr days"
  have "clock e 0 \<le> clock e 1" using assms(1) by (simp add: env_valid_def)
  then have "0 \<le> days" by (simp add: days_def)
  then have d1: "decay \<le> 1" unfolding decay_def by (intro powr_le1) simp_all
  have d0: "0 \<le> decay" by (simp add: decay_def)
  have r: "0 \<le> rand e i" "rand e i < 1" using assms(1) by (simp_all add: env_valid_def)
  then have "\<bar>rand e i - 1 / 2\<bar> \<le> 1 / 2" by linarith
  then have "\<bar>(rand e i - 1 / 2) * (1 / 100)\<bar> \<le> 1 / 200" by (simp add: abs_mult)
  moreover have "\<bar>(rand e i - 1 / 2) * (1 / 100) * decay\<bar>
        = \<bar>(rand e i - 1 / 2) * (1 / 100)\<bar> * decay"
    using d0 by (simp add: abs_mult)
  moreover have "\<bar>(rand e i - 1 / 2) * (1 / 100)\<bar> * decay \<le> \<bar>(rand e i - 1 / 2) * (1 / 100)\<bar> * 1"
    using d1 by (intro mult_left_mono) simp_all
  ultimately have "\<bar>(rand e i - 1 / 2) * (1 / 100) * decay\<bar> \<le> 1 / 200" by linarith
  moreover have "decayedState cfg e uid ! i = (rand e i - 1 / 2) * (1 / 100) * decay"
    using assms(2)
    by (simp add: decayedState_def applyTimeDecay_def getMemoryState_def initializeMemory_def
        Let_def decay_def days_def)
  ultimately show ?thesis by simp
qed

lemma length_applyLSTMUpdate: "length (applyLSTMUpdate ms emb lr) = length ms"
  by (simp add: applyLSTMUpdate_def)

lemma applyLSTMUpdate_bound:
  assumes "i < length ms" and "\<bar>ms ! i\<bar> \<le> 1 / 200" and "0 \<le> lr" and "lr \<le> 1 / 1000"
  shows "\<bar>applyLSTMUpdate ms emb lr ! i\<bar> \<le> 1 / 100"
proof -
  define em where "em = (if i < length emb then emb ! i else 0)"
  have f: "\<bar>tanh (ms ! i * (9 / 10))\<bar> \<le> 9 / 1000"
    using tanh_abs_le_double [of "ms ! i * (9 / 10)"] assms(2) by (simp add: abs_mult)
  have g: "\<bar>tanh em\<bar> \<le> 1"
    using tanh_real_lt_1 [of em] tanh_real_gt_neg1 [of em] by (simp add: abs_le_iff)
  have "\<bar>tanh (ms ! i * (9 / 10)) * (1 - lr)\<bar> \<le> (9 / 1000) * 1"
    unfolding abs_mult using f assms(3,4) by (intro mult_mono) simp_all
  moreover have "\<bar>tanh em * lr\<bar> \<le> 1 * (1 / 1000)"
    unfolding abs_mult using g assms(3,4) by (intro mult_mono) simp_all
  ultimately have "\<bar>tanh (ms ! i * (9 / 10)) * (1 - lr) + tanh em * lr\<bar> \<le> 1 / 100"
    by linarith
  moreover have "applyLSTMUpdate ms emb lr ! i
      = tanh (ms ! i * (9 / 10)) * (1 - lr) + tanh em * lr"
    using assms(1) by (simp add: applyLSTMUpdate_def Let_def em_def)
  ultimately show ?thesis by simp
qed

lemma updateMemory_valid:
  assumes "0 \<le> sig" and "sig \<le> 1" and "length emb = MEMORY_DIMENSION cfg"
  shows "updateMemory cfg e uid emb sig =
    Inr \<lparr>res_userId = uid,
         updated = (sig \<ge> SIGNIFICANCE_THRESHOLD cfg),
         memoryState = (getMemoryState cfg e uid)
           \<lparr>state :=
              (if sig \<ge> SIGNIFICANCE_THRESHOLD cfg then
                 (let upd = applyLSTMUpdate (decayedState cfg e uid) emb (LEARNING_RATE cfg * sig);
                      sc = calculateStateChange (decayedState cfg e uid) upd
                  in if sc > GRADIENT_CLIP_NORM cfg then
                       map (\<lambda>i. decayedState cfg e uid ! i
                                 + (upd ! i - decayedState cfg e uid ! i) * (GRADIENT_CLIP_NORM cfg / sc))
                         [0..<length upd]
                     else upd)
               else decayedState cfg e uid),
            lastUpdate := clock e 2,
            eventCount := eventCount (getMemoryState cfg e uid) + 1,
            significantEventCount :=
              (if sig \<ge> SIGNIFICANCE_THRESHOLD cfg
               then significantEventCount (getMemoryState cfg e uid) + 1
               else significantEventCount (getMemoryState cfg e uid)),
            totalLearningUpdates :=
              (if sig \<ge> SIGNIFICANCE_THRESHOLD cfg
               then totalLearningUpdates (getMemoryState cfg e uid) + 1
               else totalLearningUpdates (getMemoryState cfg e uid))\<rparr>,
         metrics = \<lparr>significance = sig,
                    learningApplied = (sig \<ge> SIGNIFICANCE_THRESHOLD cfg),
                    stateChange =
                      (if sig \<ge> SIGNIFICANCE_THRESHOLD cfg then
                         calculateStateChange (decayedState cfg e uid)
                           (applyLSTMUpdate (decayedState cfg e uid) emb (LEARNING_RATE cfg * sig))
                       else 0)\<rparr>\<rparr>"
  using assms by (simp add: updateMemory_def decayedState_def Let_def)

lemma default_update_small:
  assumes "env_valid e" and "0 \<le> sig" and "sig \<le> 1"
  shows "vector_norm (decayedState default_config e uid) \<le> 2 / 25"
    and "vector_norm (applyLSTMUpdate (decayedState default_config e uid) emb
           (LEARNING_RATE default_config * sig)) \<le> 4 / 25"
    and "calculateStateChange (decayedState default_config e uid)
           (applyLSTMUpdate (decayedState default_config e uid) emb
             (LEARNING_RATE default_config * sig)) \<le> 6 / 25"
proof -
  define d where "d = decayedState default_config e uid"
  define upd where "upd = applyLSTMUpdate d emb (LEARNING_RATE default_config * sig)"
  have len: "length d = 256" by (simp add: d_def length_decayedState default_config_def)
  have db: "\<bar>d ! i\<bar> \<le> 1 / 200" if "i < 256" for i
    using decayedState_bound [OF assms(1), of i default_config uid] that
    by (simp add: d_def default_config_def)
  have lr: "0 \<le> LEARNING_RATE default_config * sig" "LEARNING_RATE default_config * sig \<le> 1 / 1000"
    using assms(2,3) by (simp_all add: default_config_def)
  have ub: "\<bar>upd ! i\<bar> \<le> 1 / 100" if "i < 256" for i
    unfolding upd_def using that len db lr by (intro applyLSTMUpdate_bound) simp_all
  have lenu: "length upd = 256" by (simp add: upd_def length_applyLSTMUpdate len)
  have s16: "sqrt (256::real) = 16" by (rule real_sqrt_unique) simp_all
  have "\<forall>x \<in> set d. \<bar>x\<bar> \<le> 1 / 200" using db len by (auto simp: in_set_conv_nth)
  from vector_norm_le [OF this] have n1: "vector_norm d \<le> 2 / 25" by (simp add: len s16)
  have "\<forall>x \<in> set upd. \<bar>x\<bar> \<le> 1 / 100" using ub lenu by (auto simp: in_set_conv_nth)
  from vector_norm_le [OF this] have n2: "vector_norm upd \<le> 4 / 25" by (simp add: lenu s16)
  have "\<forall>i < length d. \<bar>upd ! i - d ! i\<bar> \<le> 3 / 200"
  proof (intro allI impI)
    fix i assume "i < length d"
    then have "i < 256" by (simp add: len)
    from db [OF this] ub [OF this] show "\<bar>upd ! i - d ! i\<bar> \<le> 3 / 200" by linarith
  qed
  from calculateStateChange_le [OF this] have n3: "calculateStateChange d upd \<le> 6 / 25"
    by (simp add: len s16)
  from n1 show "vector_norm (decayedState default_config e uid) \<le> 2 / 25"
    by (simp add: d_def)
  from n2 show "vector_norm (applyLSTMUpdate (decayedState default_config e uid) emb
           (LEARNING_RATE default_config * sig)) \<le> 4 / 25"
    by (simp add: upd_def d_def)
  from n3 show "calculateStateChange (decayedState default_config e uid)
           (applyLSTMUpdate (decayedState default_config e uid) emb
             (LEARNING_RATE default_config * sig)) \<le> 6 / 25"
    by (simp add: upd_def d_def)
qed

text \<open>
  Claim C1 (the code does not do this). The claim: after every valid \<open>updateMemory\<close> the
  stored vector has Euclidean norm within \<open>1e-6\<close> of \<open>1\<close>. \<open>updateMemory\<close> has no
  normalisation step. With the default configuration, a clock that does not run backwards
  and draws in \<open>[0, 1)\<close>, every valid call returns a vector of norm at most \<open>0.16\<close>, so
  never within \<open>1e-6\<close> of \<open>1\<close>.
\<close>

theorem updateMemory_not_normalized:
  assumes "env_valid e" and "0 \<le> sig" and "sig \<le> 1"
    and "length emb = MEMORY_DIMENSION default_config"
  shows "\<exists>r. updateMemory default_config e uid emb sig = Inr r
    \<and> vector_norm (state (memoryState r)) \<le> 4 / 25
    \<and> \<not> \<bar>vector_norm (state (memoryState r)) - 1\<bar> \<le> 1 / 1000000"
proof -
  note small = default_update_small [OF assms(1-3)]
  have clip: "GRADIENT_CLIP_NORM default_config = 1" by (simp add: default_config_def)
  let ?d = "decayedState default_config e uid"
  let ?upd = "applyLSTMUpdate ?d emb (LEARNING_RATE default_config * sig)"
  have noclip: "\<not> calculateStateChange ?d ?upd > GRADIENT_CLIP_NORM default_config"
    using small(3) [of uid emb] clip by simp
  obtain r where r: "updateMemory default_config e uid emb sig = Inr r"
    and st: "state (memoryState r) =
       (if sig \<ge> SIGNIFICANCE_THRESHOLD default_config then ?upd else ?d)"
    using noclip by (simp add: updateMemory_valid [OF assms(2-4)] Let_def)
  have "vector_norm (state (memoryState r)) \<le> 4 / 25"
    using small(1) [of uid] small(2) [of uid emb] st by (cases "sig \<ge> SIGNIFICANCE_THRESHOLD default_config") simp_all
  then show ?thesis using r by auto
qed

lemma env0_valid: "env_valid env0"
  by (simp add: env_valid_def env0_def)

theorem updateMemory_not_normalized_witness:
  "env_valid env0 \<and> (0::real) \<le> 9 / 10 \<and> (9 / 10 :: real) \<le> 1
   \<and> length (replicate 256 (1 / 2 :: real)) = MEMORY_DIMENSION default_config
   \<and> (\<exists>r. updateMemory default_config env0 (str ''u1'') (replicate 256 (1 / 2)) (9 / 10) = Inr r
        \<and> vector_norm (state (memoryState r)) \<le> 4 / 25
        \<and> \<not> \<bar>vector_norm (state (memoryState r)) - 1\<bar> \<le> 1 / 1000000)"
proof -
  have h: "length (replicate 256 (1 / 2 :: real)) = MEMORY_DIMENSION default_config"
    by (simp add: default_config_def)
  show ?thesis
    using updateMemory_not_normalized [OF env0_valid _ _ h, of "9 / 10" "str ''u1''"] h env0_valid
    by simp
qed


lemma calculateStateChange_scaled:
  assumes "length upd = length d" and "0 \<le> s"
  shows "calculateStateChange d (map (\<lambda>i. d ! i + (upd ! i - d ! i) * s) [0..<length upd])
         = s * calculateStateChange d upd"
proof -
  let ?g = "\<lambda>i. (upd ! i - d ! i) * (upd ! i - d ! i)"
  let ?c = "map (\<lambda>i. d ! i + (upd ! i - d ! i) * s) [0..<length upd]"
  have "(?c ! i - d ! i) * (?c ! i - d ! i) = (s * s) * ?g i" if "i < length d" for i
    using that assms(1) by (simp add: algebra_simps)
  then have "sum_list (map (\<lambda>i. (?c ! i - d ! i) * (?c ! i - d ! i)) [0..<length d])
        = sum_list (map (\<lambda>i. (s * s) * ?g i) [0..<length d])"
    by (intro arg_cong [where f = sum_list] map_cong) simp_all
  also have "\<dots> = (s * s) * sum_list (map ?g [0..<length d])"
    by (simp add: sum_list_const_mult)
  finally have "calculateStateChange d ?c = sqrt ((s * s) * sum_list (map ?g [0..<length d]))"
    unfolding calculateStateChange_def Let_def foldl_add_sum_list by simp
  also have "\<dots> = s * sqrt (sum_list (map ?g [0..<length d]))"
    using assms(2) by (simp add: real_sqrt_mult)
  finally show ?thesis
    unfolding calculateStateChange_def Let_def foldl_add_sum_list by simp
qed

lemma tanh_huge: "99999 / 100000 \<le> tanh (10 ^ 10 :: real)"
proof -
  have "1 - 2 / (1 + 2 * (10 ^ 10 :: real)) \<le> tanh (10 ^ 10)"
    by (rule tanh_ge_large) simp
  moreover have "99999 / 100000 \<le> 1 - 2 / (1 + 2 * (10 ^ 10 :: real))" by simp
  ultimately show ?thesis by linarith
qed

text \<open>
  Claim C3 (the code does not do this). The claim: the \<open>stateChange\<close> reported in the metrics
  stays below the configured clip norm plus a small tolerance, also for an embedding whose
  entries are all \<open>1e10\<close>. \<open>updateMemory\<close> clips the vector but reports the magnitude it
  computed before clipping. With learning rate \<open>1\<close>, significance \<open>1\<close> and the embedding
  of 256 entries \<open>1e10\<close> (a configuration the schema accepts and a valid call), the
  reported \<open>stateChange\<close> exceeds the clip norm \<open>1\<close> by more
  than \<open>14\<close>, while the step from the decayed vector to the stored one is exactly the clip
  norm. (That no NaN or infinity appears is a property of floating-point numbers, which
  this model of exact reals cannot express.)
\<close>

theorem updateMemory_reports_unclipped_change:
  assumes "env_valid e"
  shows "config_valid eager_config
    \<and> (\<exists>r. updateMemory eager_config e uid (replicate 256 (10 ^ 10)) 1 = Inr r
    \<and> GRADIENT_CLIP_NORM eager_config + 14 < stateChange (metrics r)
    \<and> calculateStateChange (decayedState eager_config e uid) (state (memoryState r))
        = GRADIENT_CLIP_NORM eager_config)"
proof -
  let ?emb = "replicate 256 (10 ^ 10 :: real)"
  define d where "d = decayedState eager_config e uid"
  define upd where "upd = applyLSTMUpdate d ?emb (LEARNING_RATE eager_config * 1)"
  define sc where "sc = calculateStateChange d upd"
  have cfg: "MEMORY_DIMENSION eager_config = 256" "GRADIENT_CLIP_NORM eager_config = 1"
    "LEARNING_RATE eager_config = 1" "SIGNIFICANCE_THRESHOLD eager_config = 1 / 2"
    by (simp_all add: eager_config_def default_config_def)
  have len: "length d = 256" by (simp add: d_def length_decayedState cfg)
  have lenu: "length upd = length d" by (simp add: upd_def length_applyLSTMUpdate)
  have db: "\<bar>d ! i\<bar> \<le> 1 / 200" if "i < 256" for i
    using decayedState_bound [OF assms, of i eager_config uid] that by (simp add: d_def cfg)
  have u: "upd ! i = tanh (10 ^ 10)" if "i < 256" for i
    using that len by (simp add: upd_def applyLSTMUpdate_def Let_def cfg)
  have "\<forall>i < length d. 99 / 100 \<le> upd ! i - d ! i"
  proof (intro allI impI)
    fix i assume "i < length d"
    then have i: "i < 256" by (simp add: len)
    from db [OF i] u [OF i] tanh_huge show "99 / 100 \<le> upd ! i - d ! i" by linarith
  qed
  from calculateStateChange_ge [OF this]
  have "sqrt 256 * (99 / 100) \<le> sc" by (simp add: sc_def len)
  moreover have "sqrt (256::real) = 16" by (rule real_sqrt_unique) simp_all
  ultimately have big: "15 < sc" by simp
  have valid: "(0::real) \<le> 1" "(1::real) \<le> 1" "length ?emb = MEMORY_DIMENSION eager_config"
    by (simp_all add: cfg)
  have "\<exists>r. updateMemory eager_config e uid ?emb 1 = Inr r
      \<and> stateChange (metrics r) = sc
      \<and> state (memoryState r) = map (\<lambda>i. d ! i + (upd ! i - d ! i) / sc) [0..<length upd]"
    unfolding updateMemory_valid [OF valid]
    using big by (simp add: Let_def cfg sc_def upd_def d_def)
  then obtain r where r: "updateMemory eager_config e uid ?emb 1 = Inr r"
    and m: "stateChange (metrics r) = sc"
    and st0: "state (memoryState r) = map (\<lambda>i. d ! i + (upd ! i - d ! i) / sc) [0..<length upd]"
    by blast
  have st: "state (memoryState r) = map (\<lambda>i. d ! i + (upd ! i - d ! i) * (1 / sc)) [0..<length upd]"
    using st0 by simp
  have "calculateStateChange d (state (memoryState r)) = (1 / sc) * sc"
    unfolding st sc_def using lenu big
    by (intro calculateStateChange_scaled) (simp_all add: sc_def)
  then have "calculateStateChange d (state (memoryState r)) = 1" using big by simp
  moreover have "config_valid eager_config"
    by (simp add: config_valid_def eager_config_def default_config_def)
  ultimately show ?thesis using r m big by (simp add: cfg d_def)
qed

theorem updateMemory_reports_unclipped_change_witness:
  "env_valid env0 \<and> config_valid eager_config
   \<and> (\<exists>r. updateMemory eager_config env0 (str ''u1'') (replicate 256 (10 ^ 10)) 1 = Inr r
        \<and> GRADIENT_CLIP_NORM eager_config + 14 < stateChange (metrics r)
        \<and> calculateStateChange (decayedState eager_config env0 (str ''u1'')) (state (memoryState r))
            = GRADIENT_CLIP_NORM eager_config)"
  using updateMemory_reports_unclipped_change [OF env0_valid, of "str ''u1''"] env0_valid
  by simp

section \<open>Event service: the significance score\<close>


lemma vector_norm_euclidean: "vector_norm xs = euclidean_norm xs"
  by (simp add: vector_norm_def euclidean_norm_def foldl_add_sum_list power2_eq_square)

lemma clamp01_min_max: "min (max x 0) 1 = clamp01 x"
  by (simp add: clamp01_def min_def max_def)

text \<open>
  Claim C4. For every content, embedding and metadata (an optional importance, an optional
  timestamp), \<open>calculateSignificance\<close> is the clamp to \<open>[0, 1]\<close> of
  \<open>0.5 + min(len/500, 1) * 0.2 + min(\<parallel>embedding\<parallel>, 1) * 0.2\<close> plus
  \<open>min(importance, 1) * 0.2\<close> if an importance is given and plus
  \<open>exp(-age_days/30) * 0.1\<close> if a timestamp is given; a missing metadata object counts as
  one with neither.
\<close>

theorem calculateSignificance_formula:
  "calculateSignificance now content emb (Some \<lparr>importance = imp, meta_timestamp = ts\<rparr>)
     = significance_spec now content emb imp ts
   \<and> calculateSignificance now content emb None = significance_spec now content emb None None"
  by (cases imp; cases ts)
     (simp_all add: calculateSignificance_def significance_spec_def Let_def
        vector_norm_euclidean clamp01_min_max)

theorem calculateSignificance_formula_witness:
  "calculateSignificance 1700000000000 (str ''hello'') [1, 0]
     (Some \<lparr>importance = Some (1 / 2), meta_timestamp = None\<rparr>) = 802 / 1000"
  using calculateSignificance_formula [of 1700000000000 "str ''hello''" "[1, 0]" "Some (1 / 2)" None]
  by (simp add: significance_spec_def euclidean_norm_def clamp01_def str_def)

section \<open>Identity service: privacy accounting\<close>


lemma exp_5_le: "exp (5::real) \<le> 243"
proof -
  have "exp (5::real) = exp (of_nat 5 * 1)" by simp
  also have "\<dots> = exp 1 ^ 5" by (rule exp_of_nat_mult)
  also have "\<dots> \<le> 3 ^ 5" by (intro power_mono exp_le) simp
  finally show ?thesis by simp
qed

lemma calculateAggregateLoss_replicate:
  "calculateAggregateLoss cfg (replicate n \<lparr>epsilon = eps\<rparr>)
     = sqrt (2 * ln (2 / PRIVACY_DELTA cfg)) * sqrt (real n * (eps * eps))"
  by (simp add: calculateAggregateLoss_def Let_def foldl_add_sum_list sum_list_replicate)

text \<open>
  Claim C5 (the code does not do this). The claim: for ten operations of the same
  \<open>\<epsilon> > 0\<close> the aggregate loss is strictly below \<open>10 * \<epsilon>\<close>. The code returns
  \<open>sqrt(2 ln(2/\<delta>)) * sqrt(10 \<epsilon>\<^sup>2)\<close>, and for every configured \<open>\<delta>\<close> up to \<open>0.001\<close>
  (the default is \<open>0.00001\<close>) that is strictly above \<open>10 * \<epsilon>\<close>.
\<close>

theorem calculateAggregateLoss_ten_exceeds_linear:
  assumes "0 < eps" and "0 < PRIVACY_DELTA cfg" and "PRIVACY_DELTA cfg \<le> 1 / 1000"
  shows "10 * eps < calculateAggregateLoss cfg (replicate 10 \<lparr>epsilon = eps\<rparr>)"
proof -
  define L where "L = ln (2 / PRIVACY_DELTA cfg)"
  have "2 / (1 / 1000) \<le> 2 / PRIVACY_DELTA cfg"
    using assms(2,3) by (intro divide_left_mono) simp_all
  then have "exp 5 < 2 / PRIVACY_DELTA cfg" using exp_5_le by simp
  then have "ln (exp 5) < L" unfolding L_def
    using assms(2) by (subst ln_less_cancel_iff) simp_all
  then have L5: "5 < L" by simp
  have "100 * (eps * eps) < (2 * L) * (10 * (eps * eps))"
    using L5 assms(1) by simp
  then have "sqrt (100 * (eps * eps)) < sqrt ((2 * L) * (10 * (eps * eps)))"
    by (simp only: real_sqrt_less_iff)
  moreover have "sqrt (100 * (eps * eps)) = 10 * eps"
    using assms(1) by (simp add: real_sqrt_mult)
  moreover have "sqrt ((2 * L) * (10 * (eps * eps))) = sqrt (2 * L) * sqrt (10 * (eps * eps))"
    by (rule real_sqrt_mult)
  ultimately show ?thesis
    by (simp add: calculateAggregateLoss_replicate L_def)
qed

theorem calculateAggregateLoss_ten_exceeds_linear_witness:
  "(0::real) < 1 / 10 \<and> 0 < PRIVACY_DELTA default_config \<and> PRIVACY_DELTA default_config \<le> 1 / 1000
   \<and> 10 * (1 / 10) < calculateAggregateLoss default_config (replicate 10 \<lparr>epsilon = 1 / 10\<rparr>)"
proof -
  have h: "0 < PRIVACY_DELTA default_config" "PRIVACY_DELTA default_config \<le> 1 / 1000"
    by (simp_all add: default_config_def)
  show ?thesis
    using calculateAggregateLoss_ten_exceeds_linear [of "1 / 10" default_config, OF _ h] h
    by simp
qed

lemma str_levels_distinct:
  "str ''high'' \<noteq> str ''medium''" "str ''high'' \<noteq> str ''low''" "str ''medium'' \<noteq> str ''low''"
  "str ''medium'' \<noteq> str ''high''" "str ''low'' \<noteq> str ''high''" "str ''low'' \<noteq> str ''medium''"
  "str ''high'' \<noteq> []" "str ''medium'' \<noteq> []" "str ''low'' \<noteq> []"
  by (simp_all add: str_def)

lemma validateIdentity_level:
  assumes "validateIdentity i = Inr ()"
    and "l = str ''high'' \<or> l = str ''medium'' \<or> l = str ''low''"
  shows "validateIdentity (i\<lparr>id_privacyLevel := JString l\<rparr>) = Inr ()"
  using assms by (auto simp: validateIdentity_def str_levels_distinct split: if_splits)

lemma encodeIdentity_epsilon:
  assumes "validateIdentity i = Inr ()"
  shows "\<exists>r. encodeIdentity cfg e i = Inr r
    \<and> privacyLevel r = (if truthy (id_privacyLevel i) then string_of (id_privacyLevel i)
                        else str ''medium'')
    \<and> privacyEpsilon r = PRIVACY_EPSILON cfg *
        (if privacyLevel r = str ''high'' then 33 / 100
         else if privacyLevel r = str ''low'' then 15 / 10 else 1)"
proof -
  define level where
    "level = (if truthy (id_privacyLevel i) then string_of (id_privacyLevel i) else str ''medium'')"
  obtain emb scale where
    ad: "applyDifferentialPrivacy cfg e (createIdentityEmbedding cfg (id_json i)) level = (emb, scale)"
    by (cases "applyDifferentialPrivacy cfg e (createIdentityEmbedding cfg (id_json i)) level")
  have "encodeIdentity cfg e i =
      Inr \<lparr>identityId = generateIdentityId e,
           enc_userId = string_of (id_userId i),
           embedding = emb,
           privacyEpsilon = PRIVACY_EPSILON cfg *
             (if level = str ''high'' then 33 / 100 else if level = str ''low'' then 15 / 10 else 1),
           privacyDelta = PRIVACY_DELTA cfg,
           privacyLevel = level,
           createdAt = clock e 1,
           enc_metadata = \<lparr>dataFields = object_keys (id_data i),
                            embeddingNorm = vector_norm emb,
                            noiseScale = scale\<rparr>\<rparr>"
    unfolding encodeIdentity_def Let_def level_def [symmetric] ad
    using assms by simp
  then show ?thesis by (simp add: level_def)
qed

text \<open>
  Claim C6. With a positive configured base epsilon, for every identity input that passes
  validation, encoding it at the levels \<open>high\<close>, \<open>medium\<close> and \<open>low\<close> succeeds and records
  epsilons with \<open>high < medium < low\<close>, whatever the random draws and clocks of the three
  calls.
\<close>

theorem encodeIdentity_epsilon_decreasing:
  assumes "0 < PRIVACY_EPSILON cfg" and "validateIdentity i = Inr ()"
  shows "\<exists>rh rm rl.
      encodeIdentity cfg eh (i\<lparr>id_privacyLevel := JString (str ''high'')\<rparr>) = Inr rh
    \<and> encodeIdentity cfg em (i\<lparr>id_privacyLevel := JString (str ''medium'')\<rparr>) = Inr rm
    \<and> encodeIdentity cfg el (i\<lparr>id_privacyLevel := JString (str ''low'')\<rparr>) = Inr rl
    \<and> privacyLevel rh = str ''high'' \<and> privacyLevel rm = str ''medium''
    \<and> privacyLevel rl = str ''low''
    \<and> privacyEpsilon rh < privacyEpsilon rm \<and> privacyEpsilon rm < privacyEpsilon rl"
proof -
  from encodeIdentity_epsilon [OF validateIdentity_level [OF assms(2)], of "str ''high''" cfg eh]
  obtain rh where rh: "encodeIdentity cfg eh (i\<lparr>id_privacyLevel := JString (str ''high'')\<rparr>) = Inr rh"
    "privacyLevel rh = str ''high''" "privacyEpsilon rh = PRIVACY_EPSILON cfg * (33 / 100)"
    by (auto simp: str_levels_distinct)
  from encodeIdentity_epsilon [OF validateIdentity_level [OF assms(2)], of "str ''medium''" cfg em]
  obtain rm where rm: "encodeIdentity cfg em (i\<lparr>id_privacyLevel := JString (str ''medium'')\<rparr>) = Inr rm"
    "privacyLevel rm = str ''medium''" "privacyEpsilon rm = PRIVACY_EPSILON cfg"
    by (auto simp: str_levels_distinct)
  from encodeIdentity_epsilon [OF validateIdentity_level [OF assms(2)], of "str ''low''" cfg el]
  obtain rl where rl: "encodeIdentity cfg el (i\<lparr>id_privacyLevel := JString (str ''low'')\<rparr>) = Inr rl"
    "privacyLevel rl = str ''low''" "privacyEpsilon rl = PRIVACY_EPSILON cfg * (15 / 10)"
    by (auto simp: str_levels_distinct)
  have "privacyEpsilon rh < privacyEpsilon rm" "privacyEpsilon rm < privacyEpsilon rl"
    using assms(1) rh(3) rm(3) rl(3) by simp_all
  with rh rm rl show ?thesis by blast
qed

theorem encodeIdentity_epsilon_decreasing_witness:
  "0 < PRIVACY_EPSILON default_config \<and> validateIdentity john = Inr ()
   \<and> (\<exists>rh rm rl.
      encodeIdentity default_config env0 (john\<lparr>id_privacyLevel := JString (str ''high'')\<rparr>) = Inr rh
    \<and> encodeIdentity default_config env0 (john\<lparr>id_privacyLevel := JString (str ''medium'')\<rparr>) = Inr rm
    \<and> encodeIdentity default_config env0 (john\<lparr>id_privacyLevel := JString (str ''low'')\<rparr>) = Inr rl
    \<and> privacyEpsilon rh < privacyEpsilon rm \<and> privacyEpsilon rm < privacyEpsilon rl)"
proof -
  have h: "0 < PRIVACY_EPSILON default_config" by (simp add: default_config_def)
  have v: "validateIdentity john = Inr ()"
    by (simp add: validateIdentity_def john_def str_def)
  from encodeIdentity_epsilon_decreasing [OF h v, of env0 env0 env0] h v
  show ?thesis by blast
qed

section \<open>Event service: validation and the outcome of processing\<close>

lemma validateEvent_Inr_iff:
  "validateEvent ev = Inr () \<longleftrightarrow>
     nonempty_string (ev_userId ev) \<and> content_in_range (ev_content ev)
     \<and> (truthy (ev_timestamp ev) \<longrightarrow> instanceof_Date (ev_timestamp ev))"
  by (cases "ev_userId ev"; cases "ev_content ev") (auto simp: validateEvent_def)

lemma validateEvent_error:
  "validateEvent ev = Inl err \<Longrightarrow> \<exists>msg. err = ValidationError msg"
  by (auto simp: validateEvent_def split: if_splits)

lemma absent_or_number_cases:
  "absent_or_number i \<Longrightarrow> i = JUndefined \<or> (\<exists>v. i = JNumber v)"
  by (cases i) simp_all

lemma absent_or_nonneg_number_cases:
  "absent_or_nonneg_number i \<Longrightarrow> i = JUndefined \<or> (\<exists>v. i = JNumber v \<and> 0 \<le> v)"
  by (cases i) simp_all

lemma absent_or_valid_date_cases:
  "absent_or_valid_date t \<Longrightarrow> t = JUndefined \<or> (\<exists>ms. t = JDate (Some ms))"
proof (cases t)
  case (JDate d)
  assume "absent_or_valid_date t"
  with JDate show ?thesis by (cases d) simp_all
qed simp_all

lemma absent_or_valid_date_ok:
  "absent_or_valid_date v \<Longrightarrow> truthy v \<longrightarrow> instanceof_Date v"
  using absent_or_valid_date_cases [of v] by auto

lemma calculateSignificance_js_bag:
  "calculateSignificance_js lib now content emb (MetaBag JUndefined JUndefined)
     = Inr (Some (calculateSignificance now content emb
         (Some \<lparr>importance = None, meta_timestamp = None\<rparr>)))"
  "calculateSignificance_js lib now content emb (MetaBag (JNumber v) JUndefined)
     = Inr (Some (calculateSignificance now content emb
         (Some \<lparr>importance = Some v, meta_timestamp = None\<rparr>)))"
  "calculateSignificance_js lib now content emb (MetaBag JUndefined (JDate (Some ms)))
     = Inr (Some (calculateSignificance now content emb
         (Some \<lparr>importance = None, meta_timestamp = Some ms\<rparr>)))"
  "calculateSignificance_js lib now content emb (MetaBag (JNumber v) (JDate (Some ms)))
     = Inr (Some (calculateSignificance now content emb
         (Some \<lparr>importance = Some v, meta_timestamp = Some ms\<rparr>)))"
  by (simp_all add: calculateSignificance_js_def calculateSignificance_def Let_def)

lemma calculateSignificance_js_declared:
  assumes "declared_metadata md"
  shows "calculateSignificance_js lib now content emb md
         = Inr (Some (calculateSignificance now content emb (declared_of md)))"
proof (cases md)
  case (MetaValue v)
  with assms show ?thesis
    by (simp add: calculateSignificance_js_def calculateSignificance_def Let_def)
next
  case (MetaBag i t)
  with assms have "absent_or_number i" and "absent_or_valid_date t" by simp_all
  from absent_or_number_cases [OF this(1)] absent_or_valid_date_cases [OF this(2)]
  show ?thesis unfolding MetaBag
    by (auto simp: calculateSignificance_js_bag)
qed

lemma nonneg_metadata_declared: "nonneg_metadata md \<Longrightarrow> declared_metadata md"
proof (cases md)
  case (MetaValue v)
  assume "nonneg_metadata md"
  with MetaValue show ?thesis by simp
next
  case (MetaBag i t)
  assume "nonneg_metadata md"
  with MetaBag have "absent_or_nonneg_number i" "absent_or_valid_date t" by simp_all
  moreover from absent_or_nonneg_number_cases [OF this(1)] have "absent_or_number i" by auto
  ultimately show ?thesis using MetaBag by simp
qed

lemma processEvent_scored:
  assumes "validateEvent ev = Inr ()"
    and "calculateSignificance_js lib (clock e 1) (string_of (ev_content ev))
           (createEmbedding cfg (string_of (ev_content ev))) (ev_metadata ev) = Inr sg"
  shows "\<exists>r. processEvent lib cfg e ev = Inr r
    \<and> pe_significance (event r) = sg
    \<and> significant r = (case sg of None \<Rightarrow> False | Some x \<Rightarrow> SIGNIFICANCE_THRESHOLD cfg \<le> x)
    \<and> learningTriggered r = significant r"
  using assms by (simp add: processEvent_def Let_def)

text \<open>The clock readings of a call without a metadata timestamp and without a timestamp of
  its own: the start, the event id, \<open>new Date()\<close>, the end.\<close>

lemma processEvent_clock_readings:
  assumes "validateEvent ev = Inr ()" and "ev_metadata ev = MetaValue JUndefined"
    and "\<not> truthy (ev_timestamp ev)"
  shows "\<exists>r. processEvent lib cfg e ev = Inr r
    \<and> eventId (event r) = generateEventId e 1
    \<and> pe_timestamp (event r) = JDate (Some (clock e 2))
    \<and> processingTime (event r) = clock e 3 - clock e 0"
proof -
  have "calculateSignificance_js lib (clock e 1) (string_of (ev_content ev))
      (createEmbedding cfg (string_of (ev_content ev))) (ev_metadata ev)
      = Inr (Some (calculateSignificance (clock e 1) (string_of (ev_content ev))
          (createEmbedding cfg (string_of (ev_content ev))) None))"
    using calculateSignificance_js_declared [of "ev_metadata ev"] assms(2) by simp
  then show ?thesis
    using assms by (simp add: processEvent_def Let_def numeral_2_eq_2 numeral_3_eq_3)
qed

lemma processEvent_throws:
  assumes "validateEvent ev = Inr ()"
    and "calculateSignificance_js lib (clock e 1) (string_of (ev_content ev))
           (createEmbedding cfg (string_of (ev_content ev))) (ev_metadata ev) = Inl x"
  shows "processEvent lib cfg e ev = Inl x"
  using assms by (simp add: processEvent_def Let_def)

lemma processEvent_invalid:
  assumes "validateEvent ev \<noteq> Inr ()"
  shows "\<exists>msg. processEvent lib cfg e ev = Inl (Thrown (ValidationError msg))"
proof (cases "validateEvent ev")
  case (Inl err)
  with validateEvent_error obtain msg where "err = ValidationError msg" by blast
  with Inl show ?thesis by (simp add: processEvent_def Let_def)
next
  case (Inr u)
  with assms show ?thesis by simp
qed

lemma processEvent_Inr_valid:
  assumes "processEvent lib cfg e ev = Inr r"
  shows "validateEvent ev = Inr ()"
proof (rule ccontr)
  assume "validateEvent ev \<noteq> Inr ()"
  from processEvent_invalid [OF this, of lib cfg e] assms show False by auto
qed

text \<open>
  Claim C7, amended. An event with content shorter than 5 characters, longer than 10000
  characters, empty or not a string, or with a malformed timestamp (a truthy value that is
  not a \<open>Date\<close>, such as a text or a number) makes \<open>processEvent\<close> fail with a
  \<open>ValidationError\<close>, and no processed event is produced. Among the events whose user id
  is a non-empty string, whose metadata is absent or an object with an importance that is
  absent or a number and a timestamp that is absent or a valid date, and whose own
  timestamp is absent or a valid date, \<open>processEvent\<close> accepts exactly those whose content
  is a string of 5 to 10000 characters inclusive. (Nothing is said of other user ids,
  metadata and timestamps.)
\<close>

theorem processEvent_accepts_iff:
  "((\<not> content_in_range (ev_content ev)
       \<or> (truthy (ev_timestamp ev) \<and> \<not> instanceof_Date (ev_timestamp ev)))
      \<longrightarrow> (\<exists>msg. processEvent lib cfg e ev = Inl (Thrown (ValidationError msg))))
   \<and> (nonempty_string (ev_userId ev) \<and> declared_metadata (ev_metadata ev)
        \<and> absent_or_valid_date (ev_timestamp ev)
      \<longrightarrow> ((\<exists>r. processEvent lib cfg e ev = Inr r) \<longleftrightarrow> content_in_range (ev_content ev)))"
proof (intro conjI impI)
  assume "\<not> content_in_range (ev_content ev)
       \<or> (truthy (ev_timestamp ev) \<and> \<not> instanceof_Date (ev_timestamp ev))"
  then have "validateEvent ev \<noteq> Inr ()" by (auto simp: validateEvent_Inr_iff)
  then show "\<exists>msg. processEvent lib cfg e ev = Inl (Thrown (ValidationError msg))"
    by (rule processEvent_invalid)
next
  assume h: "nonempty_string (ev_userId ev) \<and> declared_metadata (ev_metadata ev)
        \<and> absent_or_valid_date (ev_timestamp ev)"
  show "(\<exists>r. processEvent lib cfg e ev = Inr r) \<longleftrightarrow> content_in_range (ev_content ev)"
  proof
    assume "\<exists>r. processEvent lib cfg e ev = Inr r"
    then have "validateEvent ev = Inr ()" using processEvent_Inr_valid by blast
    then show "content_in_range (ev_content ev)" by (simp add: validateEvent_Inr_iff)
  next
    assume "content_in_range (ev_content ev)"
    with h have v: "validateEvent ev = Inr ()"
      using absent_or_valid_date_ok [of "ev_timestamp ev"] by (simp add: validateEvent_Inr_iff)
    from h have "declared_metadata (ev_metadata ev)" by simp
    from processEvent_scored [OF v calculateSignificance_js_declared [OF this]]
    show "\<exists>r. processEvent lib cfg e ev = Inr r" by blast
  qed
qed

lemma event_rated_shape:
  "nonempty_string (ev_userId event_rated)" "content_in_range (ev_content event_rated)"
  "nonneg_metadata (ev_metadata event_rated)" "declared_metadata (ev_metadata event_rated)"
  "ev_timestamp event_rated = JUndefined"
  by (simp_all add: event_rated_def event_ok_def str_def)

theorem processEvent_accepts_iff_witness:
  "nonempty_string (ev_userId event_rated) \<and> declared_metadata (ev_metadata event_rated)
   \<and> absent_or_valid_date (ev_timestamp event_rated)
   \<and> content_in_range (ev_content event_rated)
   \<and> (\<exists>r. processEvent lib0 default_config env0 event_rated = Inr r)
   \<and> \<not> content_in_range (JString (str ''abc''))
   \<and> (\<exists>msg. processEvent lib0 default_config env0 (event_rated\<lparr>ev_content := JString (str ''abc'')\<rparr>)
         = Inl (Thrown (ValidationError msg)))
   \<and> truthy (JString (str ''today'')) \<and> \<not> instanceof_Date (JString (str ''today''))
   \<and> (\<exists>msg. processEvent lib0 default_config env0 (event_rated\<lparr>ev_timestamp := JString (str ''today'')\<rparr>)
         = Inl (Thrown (ValidationError msg)))"
proof -
  have a: "\<exists>r. processEvent lib0 default_config env0 event_rated = Inr r"
    using processEvent_accepts_iff [of event_rated lib0 default_config env0] event_rated_shape
    by simp
  have nb: "\<not> content_in_range (JString (str ''abc''))" by (simp add: str_def)
  have b: "\<exists>msg. processEvent lib0 default_config env0 (event_rated\<lparr>ev_content := JString (str ''abc'')\<rparr>)
         = Inl (Thrown (ValidationError msg))"
    using processEvent_accepts_iff
      [of "event_rated\<lparr>ev_content := JString (str ''abc'')\<rparr>" lib0 default_config env0] nb
    by simp
  have nc: "truthy (JString (str ''today''))" "\<not> instanceof_Date (JString (str ''today''))"
    by (simp_all add: str_def)
  have c: "\<exists>msg. processEvent lib0 default_config env0 (event_rated\<lparr>ev_timestamp := JString (str ''today'')\<rparr>)
         = Inl (Thrown (ValidationError msg))"
    using processEvent_accepts_iff
      [of "event_rated\<lparr>ev_timestamp := JString (str ''today'')\<rparr>" lib0 default_config env0] nc
    by simp
  from a b c nb nc event_rated_shape show ?thesis by simp
qed

lemma validateEvent_null_metadata: "validateEvent event_null_metadata = Inr ()"
  by (simp add: event_null_metadata_def event_ok_def validateEvent_def str_def)

lemma calculateSignificance_js_null:
  "calculateSignificance_js lib now content emb (MetaValue JNull) = Inl TypeError"
  by (simp add: calculateSignificance_js_def)

text \<open>
  Claim C7 as stated fails: the content alone does not decide. The event of the test
  "should validate userId" has a content of 12 characters and no timestamp, and is rejected
  with a \<open>ValidationError\<close> for its empty user id. The same event with a proper user id and
  \<open>null\<close> for metadata passes validation and then fails with a \<open>TypeError\<close>, at the
  first read of the metadata.
\<close>

theorem processEvent_rejects_empty_userId:
  "content_in_range (ev_content event_no_user)
   \<and> ev_timestamp event_no_user = JUndefined
   \<and> processEvent lib0 default_config env0 event_no_user
       = Inl (Thrown (ValidationError ''Invalid userId''))
   \<and> nonempty_string (ev_userId event_null_metadata)
   \<and> content_in_range (ev_content event_null_metadata)
   \<and> ev_timestamp event_null_metadata = JUndefined
   \<and> processEvent lib0 default_config env0 event_null_metadata = Inl TypeError"
proof -
  have a: "processEvent lib0 default_config env0 event_no_user
       = Inl (Thrown (ValidationError ''Invalid userId''))"
    by (simp add: event_no_user_def event_ok_def processEvent_def validateEvent_def)
  have m: "ev_metadata event_null_metadata = MetaValue JNull"
    by (simp add: event_null_metadata_def)
  have b: "processEvent lib0 default_config env0 event_null_metadata = Inl TypeError"
    by (rule processEvent_throws [OF validateEvent_null_metadata])
       (simp add: m calculateSignificance_js_null)
  have c: "content_in_range (ev_content event_no_user)" "ev_timestamp event_no_user = JUndefined"
    "nonempty_string (ev_userId event_null_metadata)"
    "content_in_range (ev_content event_null_metadata)"
    "ev_timestamp event_null_metadata = JUndefined"
    by (simp_all add: event_no_user_def event_null_metadata_def event_ok_def str_def)
  show ?thesis by (intro conjI a b c)
qed

section \<open>Dimension checks\<close>

text \<open>
  Claim C8, amended. \<open>calculateCosineSimilarity\<close> and \<open>compareIdentities\<close> fail with a
  \<open>ValidationError\<close> whenever their two vectors have different lengths, and return no
  similarity then.
\<close>

theorem dimension_mismatch_fails:
  "(length vec1 \<noteq> length vec2 \<longrightarrow>
      calculateCosineSimilarity vec1 vec2 = Inl (ValidationError ''Vector dimensions must match''))
   \<and> (length (embedding identity1) \<noteq> length (embedding identity2) \<longrightarrow>
      compareIdentities cfg identity1 identity2
        = Inl (ValidationError ''Identity embeddings have different dimensions''))"
  by (simp add: calculateCosineSimilarity_def compareIdentities_def)

theorem dimension_mismatch_fails_witness:
  "length [1, 0, 0 :: real] \<noteq> length [1, 0 :: real]
   \<and> calculateCosineSimilarity [1, 0, 0] [1, 0] = Inl (ValidationError ''Vector dimensions must match'')
   \<and> length (embedding (mock_identity (str ''user-1'') (replicate 256 (1 / 2))))
       \<noteq> length (embedding (mock_identity (str ''user-2'') (replicate 100 (1 / 2))))
   \<and> compareIdentities default_config
        (mock_identity (str ''user-1'') (replicate 256 (1 / 2)))
        (mock_identity (str ''user-2'') (replicate 100 (1 / 2)))
      = Inl (ValidationError ''Identity embeddings have different dimensions'')"
  using dimension_mismatch_fails [of "[1, 0, 0]" "[1, 0]"
      "mock_identity (str ''user-1'') (replicate 256 (1 / 2))"
      "mock_identity (str ''user-2'') (replicate 100 (1 / 2))" default_config]
  by (simp add: mock_identity_def)

text \<open>
  Claim C8 as stated fails: the error for the lengths 256 and 100 is not a
  \<open>DimensionMismatch\<close>. The errors module has no class of that name; what both functions
  throw is named \<open>ValidationError\<close> and has the code \<open>VALIDATION_ERROR\<close>, as the
  repository's tests expect.
\<close>

theorem dimension_mismatch_is_ValidationError:
  "isl (calculateCosineSimilarity (replicate 256 (1 / 2)) (replicate 100 (1 / 2)))
   \<and> error_name (projl (calculateCosineSimilarity (replicate 256 (1 / 2)) (replicate 100 (1 / 2))))
       = ''ValidationError''
   \<and> error_name (projl (calculateCosineSimilarity (replicate 256 (1 / 2)) (replicate 100 (1 / 2))))
       \<noteq> ''DimensionMismatch''
   \<and> error_code (projl (calculateCosineSimilarity (replicate 256 (1 / 2)) (replicate 100 (1 / 2))))
       = ''VALIDATION_ERROR''
   \<and> isl (compareIdentities default_config
        (mock_identity (str ''user-1'') (replicate 256 (1 / 2)))
        (mock_identity (str ''user-2'') (replicate 100 (1 / 2))))
   \<and> error_name (projl (compareIdentities default_config
        (mock_identity (str ''user-1'') (replicate 256 (1 / 2)))
        (mock_identity (str ''user-2'') (replicate 100 (1 / 2)))))
       = ''ValidationError''
   \<and> error_name (projl (compareIdentities default_config
        (mock_identity (str ''user-1'') (replicate 256 (1 / 2)))
        (mock_identity (str ''user-2'') (replicate 100 (1 / 2)))))
       \<noteq> ''DimensionMismatch''"
  by (simp add: calculateCosineSimilarity_def compareIdentities_def mock_identity_def)

section \<open>Event service: when an event is significant\<close>

lemma vector_norm_nonneg: "0 \<le> vector_norm xs"
proof -
  have "0 \<le> sum_list (map (\<lambda>v. v * v) xs)"
    by (rule sum_list_nonneg) auto
  then show ?thesis by (simp add: vector_norm_def foldl_add_sum_list)
qed

lemma calculateSignificance_ge_half:
  assumes "case m of None \<Rightarrow> True | Some md \<Rightarrow> (case importance md of None \<Rightarrow> True | Some v \<Rightarrow> 0 \<le> v)"
  shows "1 / 2 \<le> calculateSignificance now content emb m"
proof -
  define md where "md = (case m of None \<Rightarrow> \<lparr>importance = None, meta_timestamp = None\<rparr> | Some x \<Rightarrow> x)"
  have imp: "case importance md of None \<Rightarrow> True | Some v \<Rightarrow> 0 \<le> v"
    using assms by (cases m) (simp_all add: md_def)
  define s1 where "s1 = min (real (length content) / 500) 1 * (2 / 10)"
  define s2 where "s2 = min (vector_norm emb) 1 * (2 / 10)"
  define s3 where "s3 = (case importance md of None \<Rightarrow> 0 | Some v \<Rightarrow> if v \<noteq> 0 then min v 1 * (2 / 10) else 0)"
  define s4 where "s4 = (case meta_timestamp md of None \<Rightarrow> 0
     | Some ts \<Rightarrow> exp (- (real_of_int (now - ts) / (1000 * 60 * 60 * 24)) / 30) * (1 / 10))"
  have "0 \<le> s1" by (simp add: s1_def)
  moreover have "0 \<le> s2" using vector_norm_nonneg [of emb] by (simp add: s2_def)
  moreover have "0 \<le> s3" using imp by (cases "importance md") (simp_all add: s3_def)
  moreover have "0 \<le> s4" by (cases "meta_timestamp md") (simp_all add: s4_def)
  moreover have "calculateSignificance now content emb m = min (max (1 / 2 + s1 + s2 + s3 + s4) 0) 1"
    by (cases "importance md"; cases "meta_timestamp md")
       (simp_all add: calculateSignificance_def Let_def md_def [symmetric] s1_def s2_def s3_def s4_def)
  ultimately show ?thesis by simp
qed

lemma declared_of_nonneg:
  assumes "nonneg_metadata md"
  shows "case declared_of md of None \<Rightarrow> True
         | Some m \<Rightarrow> (case importance m of None \<Rightarrow> True | Some v \<Rightarrow> 0 \<le> v)"
proof (cases md)
  case (MetaValue v)
  then show ?thesis by simp
next
  case (MetaBag i t)
  with assms have "absent_or_nonneg_number i" by simp
  from absent_or_nonneg_number_cases [OF this] show ?thesis unfolding MetaBag by auto
qed

text \<open>
  Claim C9, amended. For every event that passes validation and whose metadata is absent
  or an object whose importance, when given, is a number that is not negative and whose
  timestamp, when given, is a valid date, the significance is a number of at least \<open>0.5\<close>;
  so under a threshold of at most \<open>0.5\<close> (the default) the event is processed, marked
  significant, and \<open>learningTriggered\<close> is true.
\<close>

theorem processEvent_significant_nonneg_importance:
  assumes "validateEvent ev = Inr ()"
    and "nonneg_metadata (ev_metadata ev)"
    and "SIGNIFICANCE_THRESHOLD cfg \<le> 1 / 2"
  shows "\<exists>r s. processEvent lib cfg e ev = Inr r \<and> pe_significance (event r) = Some s
    \<and> 1 / 2 \<le> s \<and> significant r \<and> learningTriggered r"
proof -
  define s where "s = calculateSignificance (clock e 1) (string_of (ev_content ev))
      (createEmbedding cfg (string_of (ev_content ev))) (declared_of (ev_metadata ev))"
  have half: "1 / 2 \<le> s" unfolding s_def
    by (rule calculateSignificance_ge_half [OF declared_of_nonneg [OF assms(2)]])
  have "calculateSignificance_js lib (clock e 1) (string_of (ev_content ev))
      (createEmbedding cfg (string_of (ev_content ev))) (ev_metadata ev) = Inr (Some s)"
    unfolding s_def
    by (rule calculateSignificance_js_declared [OF nonneg_metadata_declared [OF assms(2)]])
  from processEvent_scored [OF assms(1) this] obtain r where
    r: "processEvent lib cfg e ev = Inr r" "pe_significance (event r) = Some s"
      "significant r = (SIGNIFICANCE_THRESHOLD cfg \<le> s)" "learningTriggered r = significant r"
    by auto
  with half assms(3) show ?thesis by auto
qed

lemma validateEvent_examples:
  "validateEvent event_rated = Inr ()" "validateEvent event_unimportant = Inr ()"
  "validateEvent event_undated = Inr ()"
  by (simp_all add: validateEvent_def event_rated_def event_unimportant_def event_undated_def
      event_ok_def str_def)

theorem processEvent_significant_nonneg_importance_witness:
  "validateEvent event_rated = Inr ()
   \<and> ev_metadata event_rated = MetaBag (JNumber (7 / 10)) (JDate (Some 1699999990000))
   \<and> nonneg_metadata (ev_metadata event_rated)
   \<and> SIGNIFICANCE_THRESHOLD default_config \<le> 1 / 2
   \<and> (\<exists>r s. processEvent lib0 default_config env0 event_rated = Inr r
        \<and> pe_significance (event r) = Some s \<and> 1 / 2 \<le> s
        \<and> significant r \<and> learningTriggered r)"
proof -
  have m: "ev_metadata event_rated = MetaBag (JNumber (7 / 10)) (JDate (Some 1699999990000))"
    by (simp add: event_rated_def)
  have n: "nonneg_metadata (ev_metadata event_rated)" by (simp add: m)
  have t: "SIGNIFICANCE_THRESHOLD default_config \<le> 1 / 2" by (simp add: default_config_def)
  from processEvent_significant_nonneg_importance [OF validateEvent_examples(1) n t, of lib0 env0]
  show ?thesis using validateEvent_examples(1) m n t by blast
qed

lemma calculateSignificance_negative_importance:
  "calculateSignificance now content emb (Some \<lparr>importance = Some (- 5), meta_timestamp = None\<rparr>) = 0"
proof -
  have "min (real (length content) / 500) 1 * (2 / 10) \<le> 2 / 10" by simp
  moreover have "min (vector_norm emb) 1 * (2 / 10) \<le> 2 / 10" by simp
  ultimately show ?thesis
    by (simp add: calculateSignificance_def Let_def)
qed

lemma calculateSignificance_js_invalid_date:
  "calculateSignificance_js lib now content emb (MetaBag JUndefined (JDate None)) = Inr None"
  by (simp add: calculateSignificance_js_def Let_def)

text \<open>
  Claim C9 as stated fails: validation does not look at the metadata. A negative importance
  is subtracted from the score: with importance \<open>-5\<close> a valid event gets significance
  \<open>0\<close>. A timestamp without a time value makes the score NaN: with the invalid date of
  \<open>new Date('not-a-date')\<close> in its metadata a valid event gets significance NaN. Neither
  event is marked significant under the default threshold.
\<close>

theorem processEvent_negative_importance_not_significant:
  "validateEvent event_unimportant = Inr ()
   \<and> \<not> isl (processEvent lib0 default_config env0 event_unimportant)
   \<and> pe_significance (event (projr (processEvent lib0 default_config env0 event_unimportant))) = Some 0
   \<and> \<not> significant (projr (processEvent lib0 default_config env0 event_unimportant))
   \<and> \<not> learningTriggered (projr (processEvent lib0 default_config env0 event_unimportant))
   \<and> validateEvent event_undated = Inr ()
   \<and> \<not> isl (processEvent lib0 default_config env0 event_undated)
   \<and> pe_significance (event (projr (processEvent lib0 default_config env0 event_undated))) = None
   \<and> \<not> significant (projr (processEvent lib0 default_config env0 event_undated))
   \<and> \<not> learningTriggered (projr (processEvent lib0 default_config env0 event_undated))"
proof -
  have thr: "SIGNIFICANCE_THRESHOLD default_config = 1 / 2" by (simp add: default_config_def)
  have "calculateSignificance_js lib0 (clock env0 1) (string_of (ev_content event_unimportant))
      (createEmbedding default_config (string_of (ev_content event_unimportant)))
      (ev_metadata event_unimportant) = Inr (Some 0)"
    by (simp add: event_unimportant_def calculateSignificance_js_bag
        calculateSignificance_negative_importance)
  from processEvent_scored [OF validateEvent_examples(2) this] obtain r where
    r: "processEvent lib0 default_config env0 event_unimportant = Inr r"
      "pe_significance (event r) = Some 0" "\<not> significant r" "\<not> learningTriggered r"
    by (auto simp: thr)
  have "calculateSignificance_js lib0 (clock env0 1) (string_of (ev_content event_undated))
      (createEmbedding default_config (string_of (ev_content event_undated)))
      (ev_metadata event_undated) = Inr None"
    by (simp add: event_undated_def calculateSignificance_js_invalid_date)
  from processEvent_scored [OF validateEvent_examples(3) this] obtain r' where
    r': "processEvent lib0 default_config env0 event_undated = Inr r'"
      "pe_significance (event r') = None" "\<not> significant r'" "\<not> learningTriggered r'"
    by auto
  show ?thesis
    using validateEvent_examples(2,3) r r' by simp
qed

end
